theory Spec2Isabelle
  imports Complex_Main "HOL-Library.Multiset"
begin

section \<open>Trading journal: derived fields, validation, store and analytics\<close>

text \<open>
  A shallow embedding of \<^verbatim>\<open>js/data-manager.js\<close> (class \<^verbatim>\<open>TradeDataManager\<close>) and of
  the per-trade and aggregate calculations of \<^verbatim>\<open>js/calculations.js\<close> (class
  \<^verbatim>\<open>TradeCalculator\<close>). Functions of the first class carry the prefix \<open>dm_\<close>, those
  of the second the prefix \<open>tc_\<close>; apart from that the source's names are kept.
\<close>

subsection \<open>Numbers\<close>

text \<open>
  The numbers held in a trade are finite (they are read back from JSON, which has no
  other numbers) and are taken as exact rationals. The rounding, the overflow and the
  underflow of IEEE doubles are not modelled: a quotient or a product that is \<open>Fin\<close>
  here can be an infinity or a zero in a run on doubles of extreme magnitude, so
  nothing below is a statement about the finiteness of a double. What is modelled is
  what JavaScript does where exact arithmetic has no value: a division by zero gives
  \<^verbatim>\<open>NaN\<close> or an infinity, and arithmetic on a missing property gives \<^verbatim>\<open>NaN\<close>.
  The sign of a zero is not tracked; a positive dividend over zero is taken as
  \<^verbatim>\<open>+Infinity\<close>.
\<close>

datatype jsnum = Fin rat | PInf | NInf | NaN

definition js_div :: "rat \<Rightarrow> rat \<Rightarrow> jsnum" where
  "js_div a b =
     (if b \<noteq> 0 then Fin (a / b)
      else if a = 0 then NaN
      else if 0 < a then PInf else NInf)"

text \<open>Multiplication of a computed number by a finite constant, as in \<^verbatim>\<open>(x / y) * 100\<close>.\<close>

fun js_times :: "jsnum \<Rightarrow> rat \<Rightarrow> jsnum" where
  "js_times (Fin a) c = Fin (a * c)"
| "js_times NaN c = NaN"
| "js_times PInf c = (if c = 0 then NaN else if 0 < c then PInf else NInf)"
| "js_times NInf c = (if c = 0 then NaN else if 0 < c then NInf else PInf)"

text \<open>\<^verbatim>\<open>a + b\<close>, \<^verbatim>\<open>a - b\<close>, \<^verbatim>\<open>Math.max(a, b)\<close>, \<^verbatim>\<open>Math.abs(a)\<close>, \<^verbatim>\<open>a < b\<close> and \<^verbatim>\<open>a / b\<close>.\<close>

fun js_add :: "jsnum \<Rightarrow> jsnum \<Rightarrow> jsnum" where
  "js_add NaN y = NaN"
| "js_add x NaN = NaN"
| "js_add (Fin a) (Fin b) = Fin (a + b)"
| "js_add PInf NInf = NaN"
| "js_add NInf PInf = NaN"
| "js_add PInf y = PInf"
| "js_add x PInf = PInf"
| "js_add NInf y = NInf"
| "js_add x NInf = NInf"

fun js_neg :: "jsnum \<Rightarrow> jsnum" where
  "js_neg (Fin a) = Fin (- a)"
| "js_neg PInf = NInf"
| "js_neg NInf = PInf"
| "js_neg NaN = NaN"

definition js_sub :: "jsnum \<Rightarrow> jsnum \<Rightarrow> jsnum" where
  "js_sub x y = js_add x (js_neg y)"

fun js_max :: "jsnum \<Rightarrow> jsnum \<Rightarrow> jsnum" where
  "js_max NaN y = NaN"
| "js_max x NaN = NaN"
| "js_max (Fin a) (Fin b) = Fin (max a b)"
| "js_max PInf y = PInf"
| "js_max x PInf = PInf"
| "js_max NInf y = y"
| "js_max x NInf = x"

fun js_abs :: "jsnum \<Rightarrow> jsnum" where
  "js_abs (Fin a) = Fin \<bar>a\<bar>"
| "js_abs PInf = PInf"
| "js_abs NInf = PInf"
| "js_abs NaN = NaN"

fun js_less :: "jsnum \<Rightarrow> jsnum \<Rightarrow> bool" where
  "js_less NaN y = False"
| "js_less x NaN = False"
| "js_less (Fin a) (Fin b) = (a < b)"
| "js_less PInf y = False"
| "js_less x NInf = False"
| "js_less NInf y = True"
| "js_less x PInf = True"

fun js_quot :: "jsnum \<Rightarrow> jsnum \<Rightarrow> jsnum" where
  "js_quot NaN y = NaN"
| "js_quot x NaN = NaN"
| "js_quot (Fin a) (Fin b) = js_div a b"
| "js_quot (Fin a) y = Fin 0"
| "js_quot PInf (Fin b) = (if 0 \<le> b then PInf else NInf)"
| "js_quot NInf (Fin b) = (if 0 \<le> b then NInf else PInf)"
| "js_quot x y = NaN"

text \<open>
  An optional numeric property: \<open>None\<close> is a missing property. \<^verbatim>\<open>!x\<close> holds of a
  missing property and of \<open>0\<close>; \<^verbatim>\<open>x || d\<close> is \<open>d\<close> in both cases.
\<close>

definition truthy :: "rat option \<Rightarrow> bool" where
  "truthy x = (case x of None \<Rightarrow> False | Some v \<Rightarrow> v \<noteq> 0)"

definition or_default :: "rat option \<Rightarrow> rat \<Rightarrow> rat" where
  "or_default x d = (case x of None \<Rightarrow> d | Some v \<Rightarrow> if v \<noteq> 0 then v else d)"

text \<open>
  The value of a property in arithmetic and in a comparison: a missing property is
  \<^verbatim>\<open>undefined\<close>, which converts to \<^verbatim>\<open>NaN\<close>.
\<close>

definition to_number :: "rat option \<Rightarrow> jsnum" where
  "to_number x = (case x of None \<Rightarrow> NaN | Some v \<Rightarrow> Fin v)"

subsection \<open>The trade object\<close>

text \<open>
  A date property holds a string that \<^verbatim>\<open>new Date\<close> parses: \<open>Absent\<close> is a missing or
  empty property, \<open>Invalid\<close> a non-empty string that does not parse (its time value is
  \<^verbatim>\<open>NaN\<close>), \<open>At ms\<close> a date with its time value in milliseconds.
\<close>

datatype datefield = Absent | Invalid | At int

text \<open>
  String properties are strings, the empty string standing for a missing property as
  well (both are falsy, and neither equals a non-empty literal). The two numeric
  properties every trade has, \<open>positionSize\<close> and \<open>entryPrice\<close>, are numbers; the
  optional ones are options. The derived properties are stored as computed. Of them
  \<open>profitLoss\<close> is an option: a trade that did not come through \<^verbatim>\<open>addTrade\<close> or
  \<^verbatim>\<open>updateTrade\<close> can lack it (\<^verbatim>\<open>importFromCSV\<close> saves its rows without computing
  anything), and the analytics read it in sums and comparisons, where a missing
  property and 0 differ. The only read of another derived property is the truth test
  of \<open>riskAmount\<close> in the validation, where a missing property and 0 are the same. The
  journaling properties (strategy, rationale, tags, rating and the like) are read by
  none of the functions below and are left out.
\<close>

record trade =
  id_field :: "string option"
  assetType :: string
  symbol :: string
  direction :: string
  status :: string
  positionSize :: rat
  entryPrice :: rat
  entryDate :: datefield
  exitPrice :: "rat option"
  exitDate :: datefield
  commission :: "rat option"
  stopLoss :: "rat option"
  takeProfit :: "rat option"
  accountSize :: "rat option"
  profitLoss :: "rat option"
  profitLossPercent :: jsnum
  riskAmount :: rat
  rewardAmount :: rat
  riskRewardRatio :: jsnum
  riskPercent :: jsnum
  createdAt :: string
  updatedAt :: string

subsection \<open>Derived fields, \<^verbatim>\<open>TradeDataManager\<close>\<close>

definition dm_calculateProfitLoss :: "trade \<Rightarrow> rat" where
  "dm_calculateProfitLoss t =
     (case exitPrice t of
        None \<Rightarrow> 0
      | Some ex \<Rightarrow>
          if ex = 0 \<or> status t = ''open'' then 0
          else
            let priceDiff = (if direction t = ''long'' then ex - entryPrice t
                             else entryPrice t - ex);
                grossPL = priceDiff * positionSize t;
                netPL = grossPL - or_default (commission t) 0
            in netPL)"

definition dm_calculateProfitLossPercent :: "trade \<Rightarrow> jsnum" where
  "dm_calculateProfitLossPercent t =
     (if \<not> truthy (exitPrice t) \<or> status t = ''open'' then Fin 0
      else
        let entryValue = entryPrice t * positionSize t;
            netPL = dm_calculateProfitLoss t
        in js_times (js_div netPL entryValue) 100)"

definition dm_calculateRiskAmount :: "trade \<Rightarrow> rat" where
  "dm_calculateRiskAmount t =
     (case stopLoss t of
        None \<Rightarrow> 0
      | Some sl \<Rightarrow>
          if sl = 0 then 0
          else
            let priceRisk = (if direction t = ''long'' then entryPrice t - sl
                             else sl - entryPrice t)
            in priceRisk * positionSize t)"

definition dm_calculateRewardAmount :: "trade \<Rightarrow> rat" where
  "dm_calculateRewardAmount t =
     (case takeProfit t of
        None \<Rightarrow> 0
      | Some tp \<Rightarrow>
          if tp = 0 then 0
          else
            let priceReward = (if direction t = ''long'' then tp - entryPrice t
                               else entryPrice t - tp)
            in priceReward * positionSize t)"

definition dm_calculateRiskRewardRatio :: "trade \<Rightarrow> jsnum" where
  "dm_calculateRiskRewardRatio t =
     (let riskAmount = dm_calculateRiskAmount t;
          rewardAmount = dm_calculateRewardAmount t
      in if riskAmount = 0 then Fin 0 else js_div rewardAmount riskAmount)"

definition dm_calculateRiskPercent :: "trade \<Rightarrow> jsnum" where
  "dm_calculateRiskPercent t =
     (let riskAmount = dm_calculateRiskAmount t;
          accountSize = or_default (accountSize t) 10000
      in if accountSize = 0 then Fin 0
         else js_times (js_div riskAmount accountSize) 100)"

subsection \<open>Derived fields, \<^verbatim>\<open>TradeCalculator\<close>\<close>

text \<open>
  The calculator reads the settings once, in its constructor. Of the settings only the
  account size is used here.
\<close>

record settings =
  settings_accountSize :: rat
  riskPerTrade :: rat

definition getDefaultSettings :: settings where
  "getDefaultSettings = \<lparr>settings_accountSize = 10000, riskPerTrade = 2\<rparr>"

definition tc_calculateProfitLoss :: "trade \<Rightarrow> rat" where
  "tc_calculateProfitLoss t =
     (case exitPrice t of
        None \<Rightarrow> 0
      | Some ex \<Rightarrow>
          if ex = 0 \<or> status t = ''open'' then 0
          else
            let priceDiff = (if direction t = ''long'' then ex - entryPrice t
                             else entryPrice t - ex);
                grossPL = priceDiff * positionSize t;
                netPL = grossPL - or_default (commission t) 0
            in netPL)"

definition tc_calculateProfitLossPercent :: "trade \<Rightarrow> jsnum" where
  "tc_calculateProfitLossPercent t =
     (if \<not> truthy (exitPrice t) \<or> status t = ''open'' then Fin 0
      else
        let entryValue = entryPrice t * positionSize t;
            netPL = tc_calculateProfitLoss t
        in if 0 < entryValue then js_times (js_div netPL entryValue) 100 else Fin 0)"

definition tc_calculateRiskAmount :: "trade \<Rightarrow> rat" where
  "tc_calculateRiskAmount t =
     (case stopLoss t of
        None \<Rightarrow> 0
      | Some sl \<Rightarrow>
          if sl = 0 then 0
          else
            let priceRisk = (if direction t = ''long'' then entryPrice t - sl
                             else sl - entryPrice t)
            in priceRisk * positionSize t)"

definition tc_calculateRiskPercent :: "settings \<Rightarrow> trade \<Rightarrow> jsnum" where
  "tc_calculateRiskPercent s t =
     (let riskAmount = tc_calculateRiskAmount t;
          accountSize = or_default (accountSize t) (settings_accountSize s)
      in if accountSize = 0 then Fin 0
         else js_times (js_div riskAmount accountSize) 100)"

subsection \<open>Validation, \<^verbatim>\<open>TradeDataManager.validateTrade\<close>\<close>

text \<open>
  \<^verbatim>\<open>String.prototype.trim\<close> on the ASCII white space: space, tab, line feed, vertical
  tab, form feed and carriage return. The Unicode white space beyond ASCII that
  \<^verbatim>\<open>trim\<close> strips as well (U+00A0, U+FEFF, U+2028 and others) is not in the type
  \<open>char\<close>: a symbol is taken to be an ASCII string, and nothing below rests on a
  symbol that holds other white space.
\<close>

definition is_ws :: "char \<Rightarrow> bool" where
  "is_ws c = (c \<in> {CHR '' '', CHR 0x09, CHR 0x0A, CHR 0x0B, CHR 0x0C, CHR 0x0D})"

definition js_trim :: "string \<Rightarrow> string" where
  "js_trim s = rev (dropWhile is_ws (rev (dropWhile is_ws s)))"

text \<open>The time value of \<^verbatim>\<open>new Date(d)\<close>; \<open>None\<close> is \<^verbatim>\<open>NaN\<close>.\<close>

definition time_value :: "datefield \<Rightarrow> int option" where
  "time_value d = (case d of At ms \<Rightarrow> Some ms | _ \<Rightarrow> None)"

text \<open>\<^verbatim>\<open>exitDate < entryDate\<close> on two \<^verbatim>\<open>Date\<close> objects: false when either is invalid.\<close>

definition date_less :: "datefield \<Rightarrow> datefield \<Rightarrow> bool" where
  "date_less a b =
     (case (time_value a, time_value b) of (Some x, Some y) \<Rightarrow> x < y | _ \<Rightarrow> False)"

text \<open>
  Each \<^verbatim>\<open>if (...) errors.push(...)\<close> of the source is one segment of the list, in the
  source's order.
\<close>

definition dm_validateTrade :: "trade \<Rightarrow> string list" where
  "dm_validateTrade t =
     (if assetType t = [] then [''Asset type is required''] else []) @
     (if symbol t = [] \<or> js_trim (symbol t) = [] then [''Symbol is required''] else []) @
     (if direction t = [] then [''Direction is required''] else []) @
     (if positionSize t = 0 \<or> positionSize t \<le> 0
        then [''Position size must be greater than 0''] else []) @
     (if entryPrice t = 0 \<or> entryPrice t \<le> 0
        then [''Entry price must be greater than 0''] else []) @
     (if entryDate t = Absent then [''Entry date is required''] else []) @
     (if truthy (exitPrice t) \<and> or_default (exitPrice t) 0 \<le> 0
        then [''Exit price must be greater than 0''] else []) @
     (if truthy (stopLoss t) \<and> or_default (stopLoss t) 0 \<le> 0
        then [''Stop loss must be greater than 0''] else []) @
     (if truthy (takeProfit t) \<and> or_default (takeProfit t) 0 \<le> 0
        then [''Take profit must be greater than 0''] else []) @
     (if exitDate t \<noteq> Absent \<and> entryDate t \<noteq> Absent \<and> date_less (exitDate t) (entryDate t)
        then [''Exit date cannot be before entry date''] else []) @
     (if truthy (accountSize t) \<and> riskAmount t \<noteq> 0
           \<and> riskAmount t > or_default (accountSize t) 0
        then [''Risk amount cannot exceed account size''] else [])"

subsection \<open>Sorting\<close>

text \<open>
  \<^verbatim>\<open>Array.prototype.sort\<close> with a comparison function is a stable sort; it is given
  here as the insertion sort that moves an element past exactly those it compares
  greater than. \<open>gt a b\<close> stands for \<^verbatim>\<open>compare(a, b) > 0\<close>. A comparison that yields
  \<^verbatim>\<open>NaN\<close> counts as \<open>0\<close>; with such results the comparison is no longer consistent
  and the order an engine produces is its own choice.
\<close>

fun insert_by :: "('a \<Rightarrow> 'a \<Rightarrow> bool) \<Rightarrow> 'a \<Rightarrow> 'a list \<Rightarrow> 'a list" where
  "insert_by gt x [] = [x]"
| "insert_by gt x (y # ys) = (if gt x y then y # insert_by gt x ys else x # y # ys)"

definition js_sort :: "('a \<Rightarrow> 'a \<Rightarrow> bool) \<Rightarrow> 'a list \<Rightarrow> 'a list" where
  "js_sort gt xs = foldr (insert_by gt) xs []"

text \<open>\<^verbatim>\<open>(a, b) => new Date(a.exitDate) - new Date(b.exitDate)\<close>, positive.\<close>

definition exit_ascending :: "trade \<Rightarrow> trade \<Rightarrow> bool" where
  "exit_ascending a b =
     (case (time_value (exitDate a), time_value (exitDate b)) of
        (Some x, Some y) \<Rightarrow> 0 < x - y | _ \<Rightarrow> False)"

text \<open>\<^verbatim>\<open>(a, b) => new Date(b.exitDate) - new Date(a.exitDate)\<close>, positive.\<close>

definition exit_descending :: "trade \<Rightarrow> trade \<Rightarrow> bool" where
  "exit_descending a b =
     (case (time_value (exitDate a), time_value (exitDate b)) of
        (Some x, Some y) \<Rightarrow> 0 < y - x | _ \<Rightarrow> False)"

subsection \<open>Streaks, \<^verbatim>\<open>TradeDataManager.calculateStreaks\<close>\<close>

record streaks =
  current :: int
  best :: int
  worst :: int

text \<open>
  One pass of the \<^verbatim>\<open>for\<close> loop, on the loop's variables
  \<open>(tempStreak, bestStreak, worstStreak)\<close>.
\<close>

definition streak_step :: "trade \<Rightarrow> int \<times> int \<times> int \<Rightarrow> int \<times> int \<times> int" where
  "streak_step t = (\<lambda>(tempStreak, bestStreak, worstStreak).
     let tempStreak' =
           (if js_less (Fin 0) (to_number (profitLoss t))
              then (if 0 \<le> tempStreak then tempStreak + 1 else 1)
            else if js_less (to_number (profitLoss t)) (Fin 0)
              then (if tempStreak \<le> 0 then tempStreak - 1 else - 1)
            else tempStreak)
     in (tempStreak', max bestStreak tempStreak', min worstStreak tempStreak'))"

definition calculateStreaks :: "trade list \<Rightarrow> streaks" where
  "calculateStreaks trades =
     (if length trades = 0 then \<lparr>current = 0, best = 0, worst = 0\<rparr>
      else
        let sortedTrades = js_sort exit_descending trades;
            (tempStreak, bestStreak, worstStreak) = fold streak_step sortedTrades (0, 0, 0)
        in \<lparr>current = tempStreak, best = bestStreak, worst = worstStreak\<rparr>)"

text \<open>
  The three streak properties of the object that \<^verbatim>\<open>getPerformanceSummary\<close> returns:
  all zero for an empty collection, otherwise the streaks of the closed trades.
\<close>

definition getPerformanceSummary_streaks :: "trade list \<Rightarrow> streaks" where
  "getPerformanceSummary_streaks tradesToAnalyze =
     (if length tradesToAnalyze = 0 then \<lparr>current = 0, best = 0, worst = 0\<rparr>
      else
        let closedTrades = filter (\<lambda>trade. status trade = ''closed'') tradesToAnalyze
        in calculateStreaks closedTrades)"

subsection \<open>Maximum drawdown\<close>

text \<open>
  One pass of the loop, on \<open>(peak, maxDrawdown, runningTotal)\<close>. The loop adds
  \<^verbatim>\<open>trade.profitLoss\<close> as it is, with no \<^verbatim>\<open>|| 0\<close>.
\<close>

definition drawdown_step ::
  "trade \<Rightarrow> jsnum \<times> jsnum \<times> jsnum \<Rightarrow> jsnum \<times> jsnum \<times> jsnum" where
  "drawdown_step t = (\<lambda>(peak, maxDrawdown, runningTotal).
     let runningTotal' = js_add runningTotal (to_number (profitLoss t));
         peak' = js_max peak runningTotal';
         drawdown = js_sub peak' runningTotal'
     in (peak', js_max maxDrawdown drawdown, runningTotal'))"

definition dm_calculateMaxDrawdown :: "trade list \<Rightarrow> jsnum" where
  "dm_calculateMaxDrawdown trades =
     (if length trades = 0 then Fin 0
      else
        let sortedTrades = js_sort exit_ascending trades;
            (peak, maxDrawdown, runningTotal) =
              fold drawdown_step sortedTrades (Fin 0, Fin 0, Fin 0)
        in maxDrawdown)"

definition tc_calculateMaxDrawdown :: "trade list \<Rightarrow> jsnum" where
  "tc_calculateMaxDrawdown trades =
     (let closedTrades = filter (\<lambda>trade. status trade = ''closed'') trades
      in if length closedTrades = 0 then Fin 0
         else
           let sortedTrades = js_sort exit_ascending closedTrades;
               (peak, maxDrawdown, runningTotal) =
                 fold drawdown_step sortedTrades (Fin 0, Fin 0, Fin 0)
           in maxDrawdown)"

subsection \<open>Win rate and profit factor, \<^verbatim>\<open>TradeCalculator\<close>\<close>

definition tc_calculateWinRate :: "trade list \<Rightarrow> jsnum" where
  "tc_calculateWinRate trades =
     (let closedTrades = filter (\<lambda>trade. status trade = ''closed'') trades
      in if length closedTrades = 0 then Fin 0
         else
           let winningTrades =
                 filter (\<lambda>trade. js_less (Fin 0) (to_number (profitLoss trade))) closedTrades
           in js_times (js_div (of_nat (length winningTrades)) (of_nat (length closedTrades))) 100)"

definition tc_calculateProfitFactor :: "trade list \<Rightarrow> jsnum" where
  "tc_calculateProfitFactor trades =
     (let closedTrades = filter (\<lambda>trade. status trade = ''closed'') trades
      in if length closedTrades = 0 then Fin 0
         else
           let winningTrades =
                 filter (\<lambda>trade. js_less (Fin 0) (to_number (profitLoss trade))) closedTrades;
               losingTrades =
                 filter (\<lambda>trade. js_less (to_number (profitLoss trade)) (Fin 0)) closedTrades;
               totalProfit =
                 foldl (\<lambda>sum trade. js_add sum (to_number (profitLoss trade))) (Fin 0)
                   winningTrades;
               totalLoss =
                 js_abs (foldl (\<lambda>sum trade. js_add sum (to_number (profitLoss trade))) (Fin 0)
                   losingTrades)
           in if js_less (Fin 0) totalLoss then js_quot totalProfit totalLoss else Fin 0)"

subsection \<open>The store, \<^verbatim>\<open>TradeDataManager\<close>\<close>

text \<open>
  The collection is the array that \<^verbatim>\<open>loadTrades\<close> returns and that is handed to
  \<^verbatim>\<open>saveTrades\<close>. The write to the local storage is taken to succeed; how
  \<^verbatim>\<open>JSON.stringify\<close> writes a number is not modelled. An operation takes the
  collection and returns its outcome with the collection as it is afterwards. A thrown
  \<^verbatim>\<open>Error\<close> is the left summand, with its message.
\<close>

datatype error = Error string

fun join_comma :: "string list \<Rightarrow> string" where
  "join_comma [] = []"
| "join_comma [x] = x"
| "join_comma (x # y # ys) = x @ '', '' @ join_comma (y # ys)"

text \<open>
  The six assignments after a create or an update, in the source's order; each reads
  the object as assigned so far.
\<close>

definition derive_fields :: "trade \<Rightarrow> trade" where
  "derive_fields t0 =
     (let t1 = t0\<lparr>profitLoss := Some (dm_calculateProfitLoss t0)\<rparr>;
          t2 = t1\<lparr>profitLossPercent := dm_calculateProfitLossPercent t1\<rparr>;
          t3 = t2\<lparr>riskAmount := dm_calculateRiskAmount t2\<rparr>;
          t4 = t3\<lparr>rewardAmount := dm_calculateRewardAmount t3\<rparr>;
          t5 = t4\<lparr>riskRewardRatio := dm_calculateRiskRewardRatio t4\<rparr>;
          t6 = t5\<lparr>riskPercent := dm_calculateRiskPercent t5\<rparr>
      in t6)"

text \<open>
  \<open>newId\<close> is what \<^verbatim>\<open>generateId\<close> returns, \<open>now1\<close> and \<open>now2\<close> the two readings of the
  clock. The generated id comes before the spread of \<open>tradeData\<close> in the object
  literal, so an id in \<open>tradeData\<close> replaces it.
\<close>

definition dm_addTrade ::
  "string \<Rightarrow> string \<Rightarrow> string \<Rightarrow> trade \<Rightarrow> trade list \<Rightarrow> (error + trade) \<times> trade list" where
  "dm_addTrade newId now1 now2 tradeData trades =
     (let validationErrors = dm_validateTrade tradeData
      in if 0 < length validationErrors
         then (Inl (Error (join_comma validationErrors)), trades)
         else
           let newTrade = tradeData\<lparr>
                 id_field := (case id_field tradeData of None \<Rightarrow> Some newId | Some i \<Rightarrow> Some i),
                 createdAt := now1, updatedAt := now2\<rparr>;
               newTrade = derive_fields newTrade
           in (Inr newTrade, trades @ [newTrade]))"

text \<open>
  The \<open>updates\<close> object of \<^verbatim>\<open>updateTrade\<close>: one entry per property it holds. The
  spread \<^verbatim>\<open>{...trades[index], ...updates}\<close> copies them over the stored trade.
\<close>

datatype update =
    SetId "string option"
  | SetAssetType string
  | SetSymbol string
  | SetDirection string
  | SetStatus string
  | SetPositionSize rat
  | SetEntryPrice rat
  | SetEntryDate datefield
  | SetExitPrice "rat option"
  | SetExitDate datefield
  | SetCommission "rat option"
  | SetStopLoss "rat option"
  | SetTakeProfit "rat option"
  | SetAccountSize "rat option"
  | SetProfitLoss "rat option"
  | SetProfitLossPercent jsnum
  | SetRiskAmount rat
  | SetRewardAmount rat
  | SetRiskRewardRatio jsnum
  | SetRiskPercent jsnum
  | SetCreatedAt string
  | SetUpdatedAt string

fun apply_update :: "update \<Rightarrow> trade \<Rightarrow> trade" where
  "apply_update (SetId v) t = t\<lparr>id_field := v\<rparr>"
| "apply_update (SetAssetType v) t = t\<lparr>assetType := v\<rparr>"
| "apply_update (SetSymbol v) t = t\<lparr>symbol := v\<rparr>"
| "apply_update (SetDirection v) t = t\<lparr>direction := v\<rparr>"
| "apply_update (SetStatus v) t = t\<lparr>status := v\<rparr>"
| "apply_update (SetPositionSize v) t = t\<lparr>positionSize := v\<rparr>"
| "apply_update (SetEntryPrice v) t = t\<lparr>entryPrice := v\<rparr>"
| "apply_update (SetEntryDate v) t = t\<lparr>entryDate := v\<rparr>"
| "apply_update (SetExitPrice v) t = t\<lparr>exitPrice := v\<rparr>"
| "apply_update (SetExitDate v) t = t\<lparr>exitDate := v\<rparr>"
| "apply_update (SetCommission v) t = t\<lparr>commission := v\<rparr>"
| "apply_update (SetStopLoss v) t = t\<lparr>stopLoss := v\<rparr>"
| "apply_update (SetTakeProfit v) t = t\<lparr>takeProfit := v\<rparr>"
| "apply_update (SetAccountSize v) t = t\<lparr>accountSize := v\<rparr>"
| "apply_update (SetProfitLoss v) t = t\<lparr>profitLoss := v\<rparr>"
| "apply_update (SetProfitLossPercent v) t = t\<lparr>profitLossPercent := v\<rparr>"
| "apply_update (SetRiskAmount v) t = t\<lparr>riskAmount := v\<rparr>"
| "apply_update (SetRewardAmount v) t = t\<lparr>rewardAmount := v\<rparr>"
| "apply_update (SetRiskRewardRatio v) t = t\<lparr>riskRewardRatio := v\<rparr>"
| "apply_update (SetRiskPercent v) t = t\<lparr>riskPercent := v\<rparr>"
| "apply_update (SetCreatedAt v) t = t\<lparr>createdAt := v\<rparr>"
| "apply_update (SetUpdatedAt v) t = t\<lparr>updatedAt := v\<rparr>"

definition spread :: "trade \<Rightarrow> update list \<Rightarrow> trade" where
  "spread t updates = fold apply_update updates t"

text \<open>\<^verbatim>\<open>Array.prototype.findIndex\<close>; \<open>None\<close> is \<open>-1\<close>.\<close>

fun findIndex :: "('a \<Rightarrow> bool) \<Rightarrow> 'a list \<Rightarrow> nat option" where
  "findIndex p [] = None"
| "findIndex p (x # xs) =
     (if p x then Some 0 else (case findIndex p xs of None \<Rightarrow> None | Some i \<Rightarrow> Some (Suc i)))"

definition dm_updateTrade ::
  "string \<Rightarrow> string \<Rightarrow> update list \<Rightarrow> trade list \<Rightarrow> (error + trade) \<times> trade list" where
  "dm_updateTrade now tradeId updates trades =
     (case findIndex (\<lambda>trade. id_field trade = Some tradeId) trades of
        None \<Rightarrow> (Inl (Error ''Trade not found''), trades)
      | Some index \<Rightarrow>
          let validationErrors = dm_validateTrade (spread (trades ! index) updates)
          in if 0 < length validationErrors
             then (Inl (Error (join_comma validationErrors)), trades)
             else
               let updated = (spread (trades ! index) updates)\<lparr>updatedAt := now\<rparr>;
                   updated = derive_fields updated
               in (Inr updated, trades[index := updated]))"

definition dm_deleteTrade :: "string \<Rightarrow> trade list \<Rightarrow> (error + bool) \<times> trade list" where
  "dm_deleteTrade tradeId trades =
     (let filteredTrades = filter (\<lambda>trade. id_field trade \<noteq> Some tradeId) trades
      in if length filteredTrades = length trades
         then (Inl (Error ''Trade not found''), trades)
         else (Inr True, filteredTrades))"

definition dm_getTrade :: "string \<Rightarrow> trade list \<Rightarrow> (error + trade) \<times> trade list" where
  "dm_getTrade tradeId trades =
     (case find (\<lambda>trade. id_field trade = Some tradeId) trades of
        None \<Rightarrow> (Inl (Error ''Trade not found''), trades)
      | Some trade \<Rightarrow> (Inr trade, trades))"

subsection \<open>Sample data\<close>

text \<open>
  The first of the sample trades of \<^verbatim>\<open>addSampleData\<close> (\<^verbatim>\<open>js/main.js\<close>), as the form
  hands it over: no id and no derived property yet (no \<open>profitLoss\<close>; the other
  derived fields, where a missing property and 0 are the same, read 0). Its exit date
  \<^verbatim>\<open>2024-01-16T14:25:00Z\<close> and entry date \<^verbatim>\<open>2024-01-15T09:30:00Z\<close> are given by
  their time values.
\<close>

definition sampleTrade :: trade where
  "sampleTrade = \<lparr>
     id_field = None, assetType = ''stocks'', symbol = ''AAPL'', direction = ''long'',
     status = ''closed'', positionSize = 100, entryPrice = 601 / 4,
     entryDate = At 1705311000000, exitPrice = Some (311 / 2),
     exitDate = At 1705415100000, commission = Some 5, stopLoss = Some 148,
     takeProfit = Some 155, accountSize = Some 10000,
     profitLoss = None, profitLossPercent = Fin 0, riskAmount = 0, rewardAmount = 0,
     riskRewardRatio = Fin 0, riskPercent = Fin 0, createdAt = [], updatedAt = []\<rparr>"

text \<open>A closed trade that left at time \<open>d\<close> with the stored profit or loss \<open>p\<close>.\<close>

definition closedTrade :: "int \<Rightarrow> rat \<Rightarrow> trade" where
  "closedTrade d p = sampleTrade\<lparr>exitDate := At d, profitLoss := Some p\<rparr>"

text \<open>
  The sample trade as \<^verbatim>\<open>importFromCSV\<close> saves it from the row of a file that has
  the columns of the source fields only: it passes the validation, gets an id
  and the two time stamps, and no calculator is called, so it has no \<open>profitLoss\<close>.
\<close>

definition importedTrade :: trade where
  "importedTrade = sampleTrade\<lparr>id_field := Some ''trade_7'',
     createdAt := ''2024-01-20T08:00:00.000Z'', updatedAt := ''2024-01-20T08:00:00.000Z''\<rparr>"

text \<open>
  The sample trade as \<^verbatim>\<open>addTrade\<close> stores it in an empty collection, and as
  \<^verbatim>\<open>updateTrade\<close> leaves it after the exit price is set to 149 and the stop loss is
  removed.
\<close>

definition storedSampleTrade :: trade where
  "storedSampleTrade = \<lparr>
     id_field = Some ''trade_1'', assetType = ''stocks'', symbol = ''AAPL'', direction = ''long'',
     status = ''closed'', positionSize = 100, entryPrice = 601 / 4,
     entryDate = At 1705311000000, exitPrice = Some (311 / 2),
     exitDate = At 1705415100000, commission = Some 5, stopLoss = Some 148,
     takeProfit = Some 155, accountSize = Some 10000,
     profitLoss = Some 520, profitLossPercent = Fin (2080 / 601), riskAmount = 225,
     rewardAmount = 475, riskRewardRatio = Fin (19 / 9), riskPercent = Fin (9 / 4),
     createdAt = ''2024-01-17T08:00:00.000Z'', updatedAt = ''2024-01-17T08:00:00.001Z''\<rparr>"

definition updatedSampleTrade :: trade where
  "updatedSampleTrade = \<lparr>
     id_field = Some ''trade_1'', assetType = ''stocks'', symbol = ''AAPL'', direction = ''long'',
     status = ''closed'', positionSize = 100, entryPrice = 601 / 4,
     entryDate = At 1705311000000, exitPrice = Some 149,
     exitDate = At 1705415100000, commission = Some 5, stopLoss = None,
     takeProfit = Some 155, accountSize = Some 10000,
     profitLoss = Some (- 130), profitLossPercent = Fin (- (520 / 601)), riskAmount = 0,
     rewardAmount = 475, riskRewardRatio = Fin 0, riskPercent = Fin 0,
     createdAt = ''2024-01-17T08:00:00.000Z'', updatedAt = ''2024-01-18T08:00:00.000Z''\<rparr>"

section \<open>What the specification says, in its own words\<close>

text \<open>
  The definitions of this section are not taken from the code. They restate the
  specification, and the code is compared with them further down.
\<close>

subsection \<open>Derived fields that are up to date\<close>

text \<open>
  Each of the six stored derived fields equals its recomputation from the trade as
  stored.
\<close>

definition derived_fields_current :: "trade \<Rightarrow> bool" where
  "derived_fields_current t =
     (profitLoss t = Some (dm_calculateProfitLoss t)
      \<and> profitLossPercent t = dm_calculateProfitLossPercent t
      \<and> riskAmount t = dm_calculateRiskAmount t
      \<and> rewardAmount t = dm_calculateRewardAmount t
      \<and> riskRewardRatio t = dm_calculateRiskRewardRatio t
      \<and> riskPercent t = dm_calculateRiskPercent t)"

subsection \<open>Win rate and profit factor\<close>

definition closedTrades_of :: "trade list \<Rightarrow> trade list" where
  "closedTrades_of ts = filter (\<lambda>t. status t = ''closed'') ts"

text \<open>The profit or loss of a trade; a trade without one counts with 0.\<close>

definition profit_of :: "trade \<Rightarrow> rat" where
  "profit_of t = (case profitLoss t of None \<Rightarrow> 0 | Some p \<Rightarrow> p)"

text \<open>Winning is a profit strictly above 0, losing one strictly below; 0 is neither.\<close>

definition winners :: "trade list \<Rightarrow> trade list" where
  "winners ts = filter (\<lambda>t. status t = ''closed'' \<and> 0 < profit_of t) ts"

definition losers :: "trade list \<Rightarrow> trade list" where
  "losers ts = filter (\<lambda>t. status t = ''closed'' \<and> profit_of t < 0) ts"

definition winRate_spec :: "trade list \<Rightarrow> rat" where
  "winRate_spec ts =
     (if closedTrades_of ts = [] then 0
      else of_nat (length (winners ts)) / of_nat (length (closedTrades_of ts)) * 100)"

definition profitFactor_spec :: "trade list \<Rightarrow> rat" where
  "profitFactor_spec ts =
     (if losers ts = [] then 0
      else sum_list (map profit_of (winners ts)) / \<bar>sum_list (map profit_of (losers ts))\<bar>)"

subsection \<open>Drawdown\<close>

text \<open>
  Over a sequence \<open>ps\<close> of profits in exit-date order: the running total after \<open>k\<close>
  trades (0 before the first), the running peak after \<open>k\<close> trades (the highest running
  total so far, the initial 0 included), the drawdown at each step, and the largest of
  them.
\<close>

definition running_total :: "rat list \<Rightarrow> nat \<Rightarrow> rat" where
  "running_total ps k = sum_list (take k ps)"

definition running_peak :: "rat list \<Rightarrow> nat \<Rightarrow> rat" where
  "running_peak ps k = Max (set (map (running_total ps) [0..<Suc k]))"

definition drawdowns :: "rat list \<Rightarrow> rat list" where
  "drawdowns ps = map (\<lambda>k. running_peak ps k - running_total ps k) [1..<Suc (length ps)]"

definition maxDrawdown_spec :: "rat list \<Rightarrow> rat" where
  "maxDrawdown_spec ps = (if ps = [] then 0 else Max (set (drawdowns ps)))"

text \<open>Ascending exit dates: both trades have a valid exit date and \<open>a\<close> left no later.\<close>

definition exits_in_order :: "trade \<Rightarrow> trade \<Rightarrow> bool" where
  "exits_in_order a b =
     (case (time_value (exitDate a), time_value (exitDate b)) of
        (Some x, Some y) \<Rightarrow> x \<le> y | _ \<Rightarrow> False)"

definition has_exit_date :: "trade \<Rightarrow> bool" where
  "has_exit_date t = (case exitDate t of At ms \<Rightarrow> True | _ \<Rightarrow> False)"

definition has_profitLoss :: "trade \<Rightarrow> bool" where
  "has_profitLoss t = (case profitLoss t of None \<Rightarrow> False | Some p \<Rightarrow> True)"

section \<open>Properties\<close>

lemmas dm_calc_defs =
  dm_calculateProfitLoss_def dm_calculateProfitLossPercent_def dm_calculateRiskAmount_def
  dm_calculateRewardAmount_def dm_calculateRiskRewardRatio_def dm_calculateRiskPercent_def

lemmas validate_defs = dm_validateTrade_def js_trim_def is_ws_def truthy_def or_default_def
  date_less_def time_value_def

lemmas calc_defs =
  dm_calculateProfitLoss_def dm_calculateProfitLossPercent_def dm_calculateRiskAmount_def
  dm_calculateRewardAmount_def dm_calculateRiskRewardRatio_def dm_calculateRiskPercent_def
  tc_calculateProfitLoss_def tc_calculateProfitLossPercent_def tc_calculateRiskAmount_def
  tc_calculateRiskPercent_def truthy_def or_default_def js_div_def

subsection \<open>Missing profits in comparisons\<close>

lemma to_number_simps [simp]: "to_number None = NaN" "to_number (Some v) = Fin v"
  by (simp_all add: to_number_def)

text \<open>In a comparison with 0 a missing profit behaves as 0 does: it is neither above nor below.\<close>

lemma profit_pos: "js_less (Fin 0) (to_number (profitLoss t)) \<longleftrightarrow> 0 < profit_of t"
  by (cases "profitLoss t") (simp_all add: profit_of_def)

lemma profit_neg: "js_less (to_number (profitLoss t)) (Fin 0) \<longleftrightarrow> profit_of t < 0"
  by (cases "profitLoss t") (simp_all add: profit_of_def)

lemma profit_of_closedTrade [simp]: "profit_of (closedTrade d p) = p"
  by (simp add: profit_of_def closedTrade_def)

subsection \<open>Profit and loss of a trade that is not closed\<close>

text \<open>
  C2, as the code has it. The guard of \<^verbatim>\<open>calculateProfitLoss\<close> and of
  \<^verbatim>\<open>calculateProfitLossPercent\<close>, in both classes, is
  \<^verbatim>\<open>!trade.exitPrice || trade.status === "open"\<close>. For every trade \<open>t\<close> whose status is
  \<^verbatim>\<open>open\<close>, or whose exit price is missing or zero, the profit or loss and its
  percentage are exactly 0. Every other trade \<open>c\<close>, closed or cancelled or of any
  status but \<^verbatim>\<open>open\<close>, with the exit price \<open>ex\<close>, gets the directional formula in both
  classes: \<open>ex - entryPrice\<close> for \<^verbatim>\<open>long\<close> and \<open>entryPrice - ex\<close> otherwise, times the
  position size, minus the commission (0 when missing).
\<close>

theorem profitLoss_zero_when_open_or_no_exit:
  "(status t = ''open'' \<or> \<not> truthy (exitPrice t) \<longrightarrow>
      dm_calculateProfitLoss t = 0 \<and> tc_calculateProfitLoss t = 0
      \<and> dm_calculateProfitLossPercent t = Fin 0 \<and> tc_calculateProfitLossPercent t = Fin 0)
   \<and> (exitPrice c = Some ex \<and> ex \<noteq> 0 \<and> status c \<noteq> ''open'' \<longrightarrow>
      dm_calculateProfitLoss c
        = (if direction c = ''long'' then ex - entryPrice c else entryPrice c - ex)
            * positionSize c - or_default (commission c) 0
      \<and> tc_calculateProfitLoss c = dm_calculateProfitLoss c)"
  by (auto simp add: calc_defs Let_def split: option.splits)

text \<open>
  A witness: the sample trade while open, and the sample trade cancelled and turned
  short, with \<open>(150.25 - 155.5) \<times> 100 - 5 = -530\<close>.
\<close>

theorem profitLoss_zero_when_open_or_no_exit_witness:
  "status (sampleTrade\<lparr>status := ''open''\<rparr>) = ''open''
   \<and> dm_calculateProfitLoss (sampleTrade\<lparr>status := ''open''\<rparr>) = 0
   \<and> tc_calculateProfitLoss (sampleTrade\<lparr>status := ''open''\<rparr>) = 0
   \<and> dm_calculateProfitLossPercent (sampleTrade\<lparr>status := ''open''\<rparr>) = Fin 0
   \<and> tc_calculateProfitLossPercent (sampleTrade\<lparr>status := ''open''\<rparr>) = Fin 0
   \<and> status (sampleTrade\<lparr>status := ''cancelled'', direction := ''short''\<rparr>) = ''cancelled''
   \<and> dm_calculateProfitLoss (sampleTrade\<lparr>status := ''cancelled'', direction := ''short''\<rparr>)
       = - 530
   \<and> tc_calculateProfitLoss (sampleTrade\<lparr>status := ''cancelled'', direction := ''short''\<rparr>)
       = - 530"
proof -
  have h1: "status (sampleTrade\<lparr>status := ''open''\<rparr>) = ''open''
           \<or> \<not> truthy (exitPrice (sampleTrade\<lparr>status := ''open''\<rparr>))"
    by simp
  have h2: "exitPrice (sampleTrade\<lparr>status := ''cancelled'', direction := ''short''\<rparr>)
              = Some (311 / 2)
            \<and> (311 / 2 :: rat) \<noteq> 0
            \<and> status (sampleTrade\<lparr>status := ''cancelled'', direction := ''short''\<rparr>) \<noteq> ''open''"
    by (simp add: sampleTrade_def)
  from profitLoss_zero_when_open_or_no_exit [of "sampleTrade\<lparr>status := ''open''\<rparr>"
      "sampleTrade\<lparr>status := ''cancelled'', direction := ''short''\<rparr>" "311 / 2"] h1 h2
  show ?thesis by (simp add: sampleTrade_def or_default_def)
qed

text \<open>
  As the specification words it, the property also covers the status
  \<^verbatim>\<open>cancelled\<close>. A cancelled trade that carries an exit price gets the directional
  formula: the sample trade, cancelled, has a profit of 520.
\<close>

theorem profitLoss_cancelled_counterexample:
  "status (sampleTrade\<lparr>status := ''cancelled''\<rparr>) \<noteq> ''closed''
   \<and> dm_calculateProfitLoss (sampleTrade\<lparr>status := ''cancelled''\<rparr>) = 520
   \<and> tc_calculateProfitLoss (sampleTrade\<lparr>status := ''cancelled''\<rparr>) = 520"
  by (simp add: calc_defs sampleTrade_def)

subsection \<open>The percentage and its zero guard\<close>

text \<open>
  C3, as the code has it. In both classes \<^verbatim>\<open>calculateProfitLossPercent\<close> returns 0
  for a trade \<open>t\<close> whose status is \<^verbatim>\<open>open\<close> or whose exit price is missing or zero. The
  calculator's version returns 0 as well for every trade \<open>g\<close> whose entry value
  \<open>entryPrice \<times> positionSize\<close> is not positive. So it divides only for a trade \<open>d\<close>
  that passes both guards, by an entry value above 0, and the result is the profit or
  loss over the entry value, times 100; on such a trade the data manager's version
  returns the same. What the data manager's version returns at an entry value that is
  not positive is left open here, and so is the finiteness of the quotient on doubles.
\<close>

theorem profitLossPercent_guards:
  "(status t = ''open'' \<or> \<not> truthy (exitPrice t) \<longrightarrow>
      dm_calculateProfitLossPercent t = Fin 0 \<and> tc_calculateProfitLossPercent t = Fin 0)
   \<and> (entryPrice g * positionSize g \<le> 0 \<longrightarrow> tc_calculateProfitLossPercent g = Fin 0)
   \<and> (truthy (exitPrice d) \<and> status d \<noteq> ''open'' \<and> 0 < entryPrice d * positionSize d \<longrightarrow>
        tc_calculateProfitLossPercent d
          = js_times (js_div (tc_calculateProfitLoss d) (entryPrice d * positionSize d)) 100
        \<and> dm_calculateProfitLossPercent d = tc_calculateProfitLossPercent d)"
  by (auto simp add: calc_defs Let_def split: option.splits)

text \<open>
  A witness: the sample trade while open; the sample trade, closed, with the position
  size \<open>-100\<close>, which passes the first guard and is stopped by the calculator's second;
  and the sample trade as it is, where the division is made: 520 / 15025 \<times> 100.
\<close>

theorem profitLossPercent_guards_witness:
  "status (sampleTrade\<lparr>status := ''open''\<rparr>) = ''open''
   \<and> dm_calculateProfitLossPercent (sampleTrade\<lparr>status := ''open''\<rparr>) = Fin 0
   \<and> tc_calculateProfitLossPercent (sampleTrade\<lparr>status := ''open''\<rparr>) = Fin 0
   \<and> status (sampleTrade\<lparr>positionSize := - 100\<rparr>) = ''closed''
   \<and> truthy (exitPrice (sampleTrade\<lparr>positionSize := - 100\<rparr>))
   \<and> entryPrice (sampleTrade\<lparr>positionSize := - 100\<rparr>)
       * positionSize (sampleTrade\<lparr>positionSize := - 100\<rparr>) = - 15025
   \<and> tc_calculateProfitLossPercent (sampleTrade\<lparr>positionSize := - 100\<rparr>) = Fin 0
   \<and> status sampleTrade = ''closed''
   \<and> truthy (exitPrice sampleTrade)
   \<and> entryPrice sampleTrade * positionSize sampleTrade = 15025
   \<and> tc_calculateProfitLoss sampleTrade = 520
   \<and> tc_calculateProfitLossPercent sampleTrade = Fin (520 / 15025 * 100)
   \<and> dm_calculateProfitLossPercent sampleTrade = Fin (520 / 15025 * 100)"
proof -
  have h1: "status (sampleTrade\<lparr>status := ''open''\<rparr>) = ''open''
            \<or> \<not> truthy (exitPrice (sampleTrade\<lparr>status := ''open''\<rparr>))"
    by simp
  have h2: "entryPrice (sampleTrade\<lparr>positionSize := - 100\<rparr>)
       * positionSize (sampleTrade\<lparr>positionSize := - 100\<rparr>) \<le> 0"
    by (simp add: sampleTrade_def)
  have h3: "truthy (exitPrice sampleTrade) \<and> status sampleTrade \<noteq> ''open''
       \<and> 0 < entryPrice sampleTrade * positionSize sampleTrade"
    by (simp add: sampleTrade_def truthy_def)
  from profitLossPercent_guards [of "sampleTrade\<lparr>status := ''open''\<rparr>"
      "sampleTrade\<lparr>positionSize := - 100\<rparr>" sampleTrade] h1 h2 h3
  have "dm_calculateProfitLossPercent (sampleTrade\<lparr>status := ''open''\<rparr>) = Fin 0"
    and "tc_calculateProfitLossPercent (sampleTrade\<lparr>status := ''open''\<rparr>) = Fin 0"
    and "tc_calculateProfitLossPercent (sampleTrade\<lparr>positionSize := - 100\<rparr>) = Fin 0"
    and "tc_calculateProfitLossPercent sampleTrade
          = js_times (js_div (tc_calculateProfitLoss sampleTrade)
              (entryPrice sampleTrade * positionSize sampleTrade)) 100"
    and "dm_calculateProfitLossPercent sampleTrade = tc_calculateProfitLossPercent sampleTrade"
    by blast+
  then show ?thesis
    by (simp add: js_div_def tc_calculateProfitLoss_def or_default_def truthy_def sampleTrade_def)
qed

text \<open>
  As the specification words it, the property fails twice. A cancelled trade with an exit
  price is not closed and has a percentage other than 0, in both classes. A closed
  trade with position size 0 has entry value 0, and the data manager's version returns
  an infinity for it.
\<close>

theorem profitLossPercent_counterexample:
  "status (sampleTrade\<lparr>status := ''cancelled''\<rparr>) \<noteq> ''closed''
   \<and> dm_calculateProfitLossPercent (sampleTrade\<lparr>status := ''cancelled''\<rparr>) = Fin (2080 / 601)
   \<and> tc_calculateProfitLossPercent (sampleTrade\<lparr>status := ''cancelled''\<rparr>) = Fin (2080 / 601)
   \<and> entryPrice (sampleTrade\<lparr>positionSize := 0\<rparr>) * positionSize (sampleTrade\<lparr>positionSize := 0\<rparr>) = 0
   \<and> dm_calculateProfitLossPercent (sampleTrade\<lparr>positionSize := 0\<rparr>) = NInf"
  by (simp add: calc_defs sampleTrade_def)

subsection \<open>Validation\<close>

text \<open>
  C4, at an input where the code departs from it. \<^verbatim>\<open>validateTrade\<close> has no rule on
  the side of the stop loss or of the take profit. The sample trade is long with entry
  price 150.25; with its stop loss moved above the entry (160) and its take profit
  below it (140), validation returns the empty list.
\<close>

theorem validateTrade_accepts_wrong_side_stop:
  "direction (sampleTrade\<lparr>stopLoss := Some 160, takeProfit := Some 140\<rparr>) = ''long''
   \<and> entryPrice (sampleTrade\<lparr>stopLoss := Some 160, takeProfit := Some 140\<rparr>) < 160
   \<and> 140 < entryPrice (sampleTrade\<lparr>stopLoss := Some 160, takeProfit := Some 140\<rparr>)
   \<and> dm_validateTrade (sampleTrade\<lparr>stopLoss := Some 160, takeProfit := Some 140\<rparr>) = []"
  by (simp add: dm_validateTrade_def sampleTrade_def js_trim_def is_ws_def truthy_def
      or_default_def date_less_def time_value_def)

subsection \<open>Risk percentage\<close>

text \<open>
  C8, at an input where the code departs from it. The data manager's
  \<^verbatim>\<open>calculateRiskPercent\<close> falls back to the literal 10000 and never reads the
  settings. The sample trade without an account size has a risk amount of 225; under
  settings with an account size of 50000 the calculator returns 225 / 50000 \<times> 100, the
  data manager 225 / 10000 \<times> 100.
\<close>

theorem dm_calculateRiskPercent_ignores_settings:
  "accountSize (sampleTrade\<lparr>accountSize := None\<rparr>) = None
   \<and> dm_calculateRiskAmount (sampleTrade\<lparr>accountSize := None\<rparr>) = 225
   \<and> dm_calculateRiskPercent (sampleTrade\<lparr>accountSize := None\<rparr>) = Fin (225 / 10000 * 100)
   \<and> tc_calculateRiskPercent \<lparr>settings_accountSize = 50000, riskPerTrade = 2\<rparr>
        (sampleTrade\<lparr>accountSize := None\<rparr>) = Fin (225 / 50000 * 100)"
  by (simp add: calc_defs sampleTrade_def)

text \<open>
  The calculator's version falls back to the configured account size, for every trade
  and every setting.
\<close>

lemma tc_calculateRiskPercent_fallback:
  "\<not> truthy (accountSize t) \<Longrightarrow>
     tc_calculateRiskPercent s t =
       (if settings_accountSize s = 0 then Fin 0
        else Fin (tc_calculateRiskAmount t / settings_accountSize s * 100))"
  by (auto simp add: tc_calculateRiskPercent_def truthy_def or_default_def js_div_def Let_def
      split: option.splits)

text \<open>The data manager's version divides by 10000 for every such trade.\<close>

lemma dm_calculateRiskPercent_fallback:
  "\<not> truthy (accountSize t) \<Longrightarrow>
     dm_calculateRiskPercent t = Fin (dm_calculateRiskAmount t / 10000 * 100)"
  by (auto simp add: dm_calculateRiskPercent_def truthy_def or_default_def js_div_def Let_def
      split: option.splits)

text \<open>
  The two classes compute the same profit or loss, and under the default settings the
  same risk percentage.
\<close>

lemma calculateProfitLoss_same: "tc_calculateProfitLoss t = dm_calculateProfitLoss t"
  by (simp add: tc_calculateProfitLoss_def dm_calculateProfitLoss_def)

lemma calculateRiskPercent_default_settings:
  "tc_calculateRiskPercent getDefaultSettings t = dm_calculateRiskPercent t"
  by (simp add: tc_calculateRiskPercent_def dm_calculateRiskPercent_def getDefaultSettings_def
      tc_calculateRiskAmount_def dm_calculateRiskAmount_def)

subsection \<open>Streaks\<close>

lemma set_insert_by [simp]: "set (insert_by gt x xs) = insert x (set xs)"
  by (induction xs) auto

lemma set_js_sort [simp]: "set (js_sort gt xs) = set xs"
  by (induction xs) (simp_all add: js_sort_def)

lemma length_insert_by [simp]: "length (insert_by gt x xs) = Suc (length xs)"
  by (induction xs) auto

lemma length_js_sort [simp]: "length (js_sort gt xs) = length xs"
  by (induction xs) (simp_all add: js_sort_def)

text \<open>
  C1, at the input of the specification's example. The scan runs over the trades
  sorted by exit date descending, the most recent first, so the counter it ends with
  is the streak at the oldest trade. For the chronological sequence
  \<open>[+1, +1, -1, +1]\<close> the most recent streak is \<open>+1\<close>; the code returns 2 as the current
  streak, whatever the order in which the trades are handed over.
\<close>

theorem calculateStreaks_current_is_oldest:
  "calculateStreaks [closedTrade 1 1, closedTrade 2 1, closedTrade 3 (- 1), closedTrade 4 1]
     = \<lparr>current = 2, best = 2, worst = - 1\<rparr>
   \<and> calculateStreaks [closedTrade 4 1, closedTrade 3 (- 1), closedTrade 2 1, closedTrade 1 1]
     = \<lparr>current = 2, best = 2, worst = - 1\<rparr>"
  by code_simp

text \<open>The loop keeps \<open>bestStreak\<close> at or above 0 and \<open>worstStreak\<close> at or below 0.\<close>

lemma streak_fold_bounds:
  "fold streak_step ts (c, b, w) = (c', b', w') \<Longrightarrow> 0 \<le> b \<Longrightarrow> w \<le> 0 \<Longrightarrow> 0 \<le> b' \<and> w' \<le> 0"
proof (induction ts arbitrary: c b w)
  case Nil
  then show ?case by simp
next
  case (Cons t ts)
  obtain c1 b1 w1 where s: "streak_step t (c, b, w) = (c1, b1, w1)"
    by (cases "streak_step t (c, b, w)") auto
  with Cons.prems have "0 \<le> b1" "w1 \<le> 0"
    by (auto simp add: streak_step_def Let_def profit_pos profit_neg)
  moreover from Cons.prems s have "fold streak_step ts (c1, b1, w1) = (c', b', w')" by simp
  ultimately show ?case using Cons.IH by blast
qed

text \<open>Over losing trades only, the counter never rises above 0.\<close>

lemma streak_fold_all_losers:
  "fold streak_step ts (c, b, w) = (c', b', w') \<Longrightarrow> \<forall>t\<in>set ts. profit_of t < 0
     \<Longrightarrow> c \<le> 0 \<Longrightarrow> b = 0 \<Longrightarrow> c' \<le> 0 \<and> b' = 0"
proof (induction ts arbitrary: c b w)
  case Nil
  then show ?case by simp
next
  case (Cons t ts)
  obtain c1 b1 w1 where s: "streak_step t (c, b, w) = (c1, b1, w1)"
    by (cases "streak_step t (c, b, w)") auto
  with Cons.prems have "c1 \<le> 0" "b1 = 0"
    by (auto simp add: streak_step_def Let_def profit_pos profit_neg)
  moreover from Cons.prems s have "fold streak_step ts (c1, b1, w1) = (c', b', w')" by simp
  moreover from Cons.prems have "\<forall>t\<in>set ts. profit_of t < 0" by simp
  ultimately show ?case using Cons.IH by blast
qed

lemma streak_fold_all_winners:
  "fold streak_step ts (c, b, w) = (c', b', w') \<Longrightarrow> \<forall>t\<in>set ts. 0 < profit_of t
     \<Longrightarrow> 0 \<le> c \<Longrightarrow> w = 0 \<Longrightarrow> 0 \<le> c' \<and> w' = 0"
proof (induction ts arbitrary: c b w)
  case Nil
  then show ?case by simp
next
  case (Cons t ts)
  obtain c1 b1 w1 where s: "streak_step t (c, b, w) = (c1, b1, w1)"
    by (cases "streak_step t (c, b, w)") auto
  with Cons.prems have "0 \<le> c1" "w1 = 0"
    by (auto simp add: streak_step_def Let_def profit_pos profit_neg)
  moreover from Cons.prems s have "fold streak_step ts (c1, b1, w1) = (c', b', w')" by simp
  moreover from Cons.prems have "\<forall>t\<in>set ts. 0 < profit_of t" by simp
  ultimately show ?case using Cons.IH by blast
qed

lemma calculateStreaks_fold:
  "\<exists>c b w. fold streak_step (js_sort exit_descending ts) (0, 0, 0) = (c, b, w)
     \<and> (ts \<noteq> [] \<longrightarrow> calculateStreaks ts = \<lparr>current = c, best = b, worst = w\<rparr>)"
  by (cases "fold streak_step (js_sort exit_descending ts) (0, 0, 0)")
     (auto simp add: calculateStreaks_def)

lemma calculateStreaks_bounds:
  "0 \<le> best (calculateStreaks ts) \<and> worst (calculateStreaks ts) \<le> 0"
proof (cases "ts = []")
  case True
  then show ?thesis by (simp add: calculateStreaks_def)
next
  case False
  obtain c b w where f: "fold streak_step (js_sort exit_descending ts) (0, 0, 0) = (c, b, w)"
    and r: "calculateStreaks ts = \<lparr>current = c, best = b, worst = w\<rparr>"
    using calculateStreaks_fold [of ts] False by blast
  from streak_fold_bounds [OF f] r show ?thesis by simp
qed

lemma calculateStreaks_all_losers:
  assumes "\<forall>t\<in>set ts. profit_of t < 0"
  shows "best (calculateStreaks ts) = 0"
proof (cases "ts = []")
  case True
  then show ?thesis by (simp add: calculateStreaks_def)
next
  case False
  obtain c b w where f: "fold streak_step (js_sort exit_descending ts) (0, 0, 0) = (c, b, w)"
    and r: "calculateStreaks ts = \<lparr>current = c, best = b, worst = w\<rparr>"
    using calculateStreaks_fold [of ts] False by blast
  from streak_fold_all_losers [OF f] assms r show ?thesis by simp
qed

lemma calculateStreaks_all_winners:
  assumes "\<forall>t\<in>set ts. 0 < profit_of t"
  shows "worst (calculateStreaks ts) = 0"
proof (cases "ts = []")
  case True
  then show ?thesis by (simp add: calculateStreaks_def)
next
  case False
  obtain c b w where f: "fold streak_step (js_sort exit_descending ts) (0, 0, 0) = (c, b, w)"
    and r: "calculateStreaks ts = \<lparr>current = c, best = b, worst = w\<rparr>"
    using calculateStreaks_fold [of ts] False by blast
  from streak_fold_all_winners [OF f] assms r show ?thesis by simp
qed

text \<open>
  C10. For every collection \<open>ts\<close>, \<^verbatim>\<open>calculateStreaks\<close> returns a best streak of at
  least 0 and a worst streak of at most 0, and so does the performance summary. For a
  collection \<open>ls\<close> whose closed trades all have a negative profit or loss the best
  streak is 0; for a collection \<open>ws\<close> whose closed trades all have a positive one the
  worst streak is 0.
\<close>

theorem streak_bounds:
  "0 \<le> best (calculateStreaks ts) \<and> worst (calculateStreaks ts) \<le> 0
   \<and> 0 \<le> best (getPerformanceSummary_streaks ts)
   \<and> worst (getPerformanceSummary_streaks ts) \<le> 0
   \<and> ((\<forall>t\<in>set ls. status t = ''closed'' \<longrightarrow> profit_of t < 0)
        \<longrightarrow> best (getPerformanceSummary_streaks ls) = 0)
   \<and> ((\<forall>t\<in>set ws. status t = ''closed'' \<longrightarrow> 0 < profit_of t)
        \<longrightarrow> worst (getPerformanceSummary_streaks ws) = 0)"
proof -
  have "best (getPerformanceSummary_streaks ls) = 0"
    if "\<forall>t\<in>set ls. status t = ''closed'' \<longrightarrow> profit_of t < 0"
    using that calculateStreaks_all_losers [of "filter (\<lambda>trade. status trade = ''closed'') ls"]
    by (simp add: getPerformanceSummary_streaks_def)
  moreover have "worst (getPerformanceSummary_streaks ws) = 0"
    if "\<forall>t\<in>set ws. status t = ''closed'' \<longrightarrow> 0 < profit_of t"
    using that calculateStreaks_all_winners [of "filter (\<lambda>trade. status trade = ''closed'') ws"]
    by (simp add: getPerformanceSummary_streaks_def)
  moreover have "0 \<le> best (getPerformanceSummary_streaks ts)
      \<and> worst (getPerformanceSummary_streaks ts) \<le> 0"
    using calculateStreaks_bounds [of "filter (\<lambda>trade. status trade = ''closed'') ts"]
    by (simp add: getPerformanceSummary_streaks_def)
  ultimately show ?thesis using calculateStreaks_bounds [of ts] by blast
qed

text \<open>
  A witness: two losing closed trades and an open one with a stale profit, and two
  winning closed trades.
\<close>

theorem streak_bounds_witness:
  "best (getPerformanceSummary_streaks
        [closedTrade 1 (- 1), closedTrade 2 (- 3), sampleTrade\<lparr>status := ''open'', profitLoss := Some 7\<rparr>]) = 0
   \<and> worst (getPerformanceSummary_streaks [closedTrade 1 2, closedTrade 2 5]) = 0"
proof -
  have h1: "\<forall>t\<in>set [closedTrade 1 (- 1), closedTrade 2 (- 3),
                    sampleTrade\<lparr>status := ''open'', profitLoss := Some 7\<rparr>].
       status t = ''closed'' \<longrightarrow> profit_of t < 0"
    by (simp add: closedTrade_def profit_of_def)
  have h2: "\<forall>t\<in>set [closedTrade 1 2, closedTrade 2 5]. status t = ''closed'' \<longrightarrow> 0 < profit_of t"
    by (simp add: closedTrade_def profit_of_def)
  from streak_bounds [of "[]"
      "[closedTrade 1 (- 1), closedTrade 2 (- 3), sampleTrade\<lparr>status := ''open'', profitLoss := Some 7\<rparr>]"
      "[closedTrade 1 2, closedTrade 2 5]"] h1 h2
  show ?thesis by blast
qed

subsection \<open>Sorting by exit date\<close>

text \<open>The sort keeps the trades, each as often as it occurs.\<close>

lemma mset_insert_by: "mset (insert_by gt x xs) = add_mset x (mset xs)"
  by (induction xs) auto

lemma mset_js_sort: "mset (js_sort gt xs) = mset xs"
  by (induction xs) (simp_all add: js_sort_def mset_insert_by)

lemma list_all_insert_by: "list_all P (insert_by gt x xs) = (P x \<and> list_all P xs)"
  by (induction xs) auto

text \<open>Inserting into an ascending list keeps it ascending, when every exit date is valid.\<close>

lemma exits_in_order_insert:
  "has_exit_date x \<Longrightarrow> list_all has_exit_date xs \<Longrightarrow> sorted_wrt exits_in_order xs
     \<Longrightarrow> sorted_wrt exits_in_order (insert_by exit_ascending x xs)"
proof (induction xs)
  case Nil
  then show ?case by simp
next
  case (Cons y ys)
  show ?case
  proof (cases "exit_ascending x y")
    case True
    then have "exits_in_order y x"
      by (auto simp add: exit_ascending_def exits_in_order_def split: option.splits)
    with Cons True show ?thesis by auto
  next
    case False
    with Cons.prems have xy: "exits_in_order x y"
      by (auto simp add: exit_ascending_def exits_in_order_def has_exit_date_def time_value_def
          split: option.splits datefield.splits)
    have "exits_in_order x z" if "z \<in> set ys" for z
    proof -
      from that Cons.prems have "exits_in_order y z" by simp
      with xy show ?thesis
        by (auto simp add: exits_in_order_def split: option.splits)
    qed
    with xy False Cons.prems show ?thesis by auto
  qed
qed

lemma exits_in_order_js_sort:
  "list_all has_exit_date ts \<Longrightarrow> sorted_wrt exits_in_order (js_sort exit_ascending ts)"
proof (induction ts)
  case Nil
  then show ?case by (simp add: js_sort_def)
next
  case (Cons t ts)
  then have "sorted_wrt exits_in_order (js_sort exit_ascending ts)" by simp
  moreover have "list_all has_exit_date (js_sort exit_ascending ts)"
    using Cons.prems by (simp add: list_all_iff)
  ultimately have "sorted_wrt exits_in_order (insert_by exit_ascending t (js_sort exit_ascending ts))"
    using Cons.prems by (intro exits_in_order_insert) simp_all
  then show ?case by (simp add: js_sort_def)
qed

subsection \<open>Maximum drawdown\<close>

lemma running_total_snoc_same:
  "k \<le> length ps \<Longrightarrow> running_total (ps @ [p]) k = running_total ps k"
  by (simp add: running_total_def)

lemma running_total_snoc_last:
  "running_total (ps @ [p]) (Suc (length ps)) = running_total ps (length ps) + p"
  by (simp add: running_total_def)

lemma running_peak_snoc_same:
  "k \<le> length ps \<Longrightarrow> running_peak (ps @ [p]) k = running_peak ps k"
proof -
  assume k: "k \<le> length ps"
  have "map (running_total (ps @ [p])) [0..<Suc k] = map (running_total ps) [0..<Suc k]"
    by (rule map_cong) (use k in \<open>auto simp add: running_total_snoc_same\<close>)
  then show ?thesis by (simp only: running_peak_def)
qed

lemma running_peak_Suc:
  "running_peak ps (Suc k) = max (running_peak ps k) (running_total ps (Suc k))"
proof -
  have "set (map (running_total ps) [0..<Suc (Suc k)])
      = insert (running_total ps (Suc k)) (set (map (running_total ps) [0..<Suc k]))"
    by auto
  then show ?thesis
    unfolding running_peak_def by (simp add: max.commute del: upt_Suc)
qed

lemma running_peak_0: "running_peak ps 0 = 0"
  by (simp add: running_peak_def running_total_def)

lemma running_peak_ge: "running_total ps k \<le> running_peak ps k"
  unfolding running_peak_def by (rule Max_ge) auto

lemma length_drawdowns: "length (drawdowns ps) = length ps"
  by (simp add: drawdowns_def del: upt_Suc)

lemma drawdowns_snoc:
  "drawdowns (ps @ [p]) = drawdowns ps @
     [running_peak (ps @ [p]) (Suc (length ps)) - running_total (ps @ [p]) (Suc (length ps))]"
proof -
  have "map (\<lambda>k. running_peak (ps @ [p]) k - running_total (ps @ [p]) k) [1..<Suc (length ps)]
      = map (\<lambda>k. running_peak ps k - running_total ps k) [1..<Suc (length ps)]"
    by (rule map_cong) (auto simp add: running_peak_snoc_same running_total_snoc_same)
  moreover have "[1..<Suc (length (ps @ [p]))] = [1..<Suc (length ps)] @ [Suc (length ps)]"
    by simp
  ultimately show ?thesis
    by (simp only: drawdowns_def map_append list.map)
qed

text \<open>
  The loop invariant, for trades that all have a profit: after the trades \<open>ts\<close> the
  three variables hold the running peak, the largest drawdown and the running total of
  their profits.
\<close>

lemma has_profitLoss_number: "has_profitLoss t \<Longrightarrow> to_number (profitLoss t) = Fin (profit_of t)"
  by (cases "profitLoss t") (simp_all add: has_profitLoss_def profit_of_def)

lemma drawdown_fold_spec:
  "list_all has_profitLoss ts \<Longrightarrow>
   fold drawdown_step ts (Fin 0, Fin 0, Fin 0) =
     (Fin (running_peak (map profit_of ts) (length ts)),
      Fin (maxDrawdown_spec (map profit_of ts)),
      Fin (running_total (map profit_of ts) (length ts)))"
proof (induction ts rule: rev_induct)
  case Nil
  show ?case by (simp add: running_peak_0 maxDrawdown_spec_def running_total_def)
next
  case (snoc t ts)
  let ?ps = "map profit_of ts"
  let ?ps' = "?ps @ [profit_of t]"
  let ?n = "length ts"
  from snoc.prems have all: "list_all has_profitLoss ts" and num: "has_profitLoss t"
    by simp_all
  have tot: "running_total ?ps' (Suc ?n) = running_total ?ps ?n + profit_of t"
    using running_total_snoc_last [of ?ps "profit_of t"] by simp
  have pk: "running_peak ?ps' (Suc ?n) = max (running_peak ?ps ?n) (running_total ?ps' (Suc ?n))"
    using running_peak_Suc [of ?ps' ?n] running_peak_snoc_same [of ?n ?ps "profit_of t"] by simp
  have ge: "0 \<le> running_peak ?ps' (Suc ?n) - running_total ?ps' (Suc ?n)"
    using running_peak_ge [of ?ps' "Suc ?n"] by simp
  have md: "maxDrawdown_spec ?ps' =
      max (maxDrawdown_spec ?ps) (running_peak ?ps' (Suc ?n) - running_total ?ps' (Suc ?n))"
  proof (cases "ts = []")
    case True
    then show ?thesis using ge
      by (simp add: maxDrawdown_spec_def drawdowns_def)
  next
    case False
    then have ne: "set (drawdowns ?ps) \<noteq> {}"
      using length_drawdowns [of ?ps] by (cases "drawdowns ?ps") auto
    have "drawdowns ?ps' = drawdowns ?ps @
        [running_peak ?ps' (Suc ?n) - running_total ?ps' (Suc ?n)]"
      using drawdowns_snoc [of ?ps "profit_of t"] by simp
    then show ?thesis using False ne
      by (simp add: maxDrawdown_spec_def max.commute)
  qed
  have "fold drawdown_step (ts @ [t]) (Fin 0, Fin 0, Fin 0)
      = drawdown_step t (fold drawdown_step ts (Fin 0, Fin 0, Fin 0))"
    by simp
  also have "\<dots> = drawdown_step t
      (Fin (running_peak ?ps ?n), Fin (maxDrawdown_spec ?ps), Fin (running_total ?ps ?n))"
    by (simp only: snoc.IH [OF all])
  also have "\<dots> = (Fin (running_peak ?ps' (Suc ?n)), Fin (maxDrawdown_spec ?ps'),
      Fin (running_total ?ps' (Suc ?n)))"
    by (simp add: drawdown_step_def Let_def js_sub_def has_profitLoss_number [OF num] tot pk md)
  finally show ?case by simp
qed

lemma maxDrawdown_spec_nonneg: "0 \<le> maxDrawdown_spec ps"
proof (cases "ps = []")
  case True
  then show ?thesis by (simp add: maxDrawdown_spec_def)
next
  case False
  then have "running_peak ps 1 - running_total ps 1 \<in> set (drawdowns ps)"
    by (cases ps) (auto simp add: drawdowns_def simp del: upt_Suc intro!: image_eqI [where x = 1])
  then have "running_peak ps 1 - running_total ps 1 \<le> Max (set (drawdowns ps))"
    by (intro Max_ge) auto
  moreover have "0 \<le> running_peak ps 1 - running_total ps 1"
    using running_peak_ge [of ps 1] by simp
  ultimately show ?thesis using False by (simp add: maxDrawdown_spec_def)
qed

lemma dm_calculateMaxDrawdown_spec:
  "list_all has_profitLoss ts \<Longrightarrow>
   dm_calculateMaxDrawdown ts
     = Fin (maxDrawdown_spec (map profit_of (js_sort exit_ascending ts)))"
proof -
  assume "list_all has_profitLoss ts"
  then have "list_all has_profitLoss (js_sort exit_ascending ts)"
    by (simp add: list_all_iff)
  from drawdown_fold_spec [OF this] show ?thesis
    by (cases "ts = []") (simp_all add: dm_calculateMaxDrawdown_def maxDrawdown_spec_def js_sort_def)
qed

lemma tc_calculateMaxDrawdown_dm:
  "tc_calculateMaxDrawdown ts = dm_calculateMaxDrawdown (closedTrades_of ts)"
  by (simp add: tc_calculateMaxDrawdown_def dm_calculateMaxDrawdown_def closedTrades_of_def Let_def)

lemma drawdown_example_sorted:
  "map profit_of (js_sort exit_ascending [closedTrade 3 50, closedTrade 1 100, closedTrade 2 (- 150)])
     = [100, - 150, 50]"
  by (simp add: js_sort_def exit_ascending_def time_value_def closedTrade_def profit_of_def)

lemma drawdown_example_closed:
  "closedTrades_of [closedTrade 3 50, closedTrade 1 100, closedTrade 2 (- 150)]
     = [closedTrade 3 50, closedTrade 1 100, closedTrade 2 (- 150)]"
  by (simp add: closedTrades_of_def closedTrade_def sampleTrade_def)

lemma drawdown_example_steps:
  "map (running_total [100, - 150, 50]) [1, 2, 3] = [100, - 50, 0]"
  "map (running_peak [100, - 150, 50]) [1, 2, 3] = [100, 100, 100]"
  "drawdowns [100, - 150, 50] = [0, 150, 100]"
  "maxDrawdown_spec [100, - 150, 50] = 150"
  by code_simp+

text \<open>
  On a collection \<open>ts\<close> whose trades all have a profit, and on a collection \<open>cs\<close> whose
  closed trades all have one, the two \<^verbatim>\<open>calculateMaxDrawdown\<close> functions return the
  largest difference between the running peak and the running total (the total
  starting at 0, the peak being its high-water mark) over the trades sorted by exit
  date, the calculator's after it has kept the closed trades only; that number is not
  negative. The sort keeps every trade, and its result is in ascending exit-date order
  when every trade has a valid exit date.
\<close>

lemma maxDrawdown_peak_to_trough:
  "(list_all has_profitLoss ts \<longrightarrow>
      dm_calculateMaxDrawdown ts
        = Fin (maxDrawdown_spec (map profit_of (js_sort exit_ascending ts))))
   \<and> (list_all has_profitLoss (closedTrades_of cs) \<longrightarrow>
      tc_calculateMaxDrawdown cs
        = Fin (maxDrawdown_spec (map profit_of (js_sort exit_ascending (closedTrades_of cs)))))
   \<and> 0 \<le> maxDrawdown_spec ps
   \<and> mset (js_sort exit_ascending ts) = mset ts
   \<and> (list_all has_exit_date ts \<longrightarrow> sorted_wrt exits_in_order (js_sort exit_ascending ts))"
  using dm_calculateMaxDrawdown_spec [of ts] dm_calculateMaxDrawdown_spec [of "closedTrades_of cs"]
    tc_calculateMaxDrawdown_dm [of cs] maxDrawdown_spec_nonneg [of ps]
    mset_js_sort [of exit_ascending ts] exits_in_order_js_sort [of ts]
  by simp

text \<open>The example: the profits \<open>[+100, -150, +50]\<close> in exit-date order, handed over out of order.\<close>

lemma maxDrawdown_example:
  "dm_calculateMaxDrawdown [closedTrade 3 50, closedTrade 1 100, closedTrade 2 (- 150)] = Fin 150
   \<and> tc_calculateMaxDrawdown [closedTrade 3 50, closedTrade 1 100, closedTrade 2 (- 150)] = Fin 150"
proof -
  have "list_all has_profitLoss [closedTrade 3 50, closedTrade 1 100, closedTrade 2 (- 150)]"
    by (simp add: has_profitLoss_def closedTrade_def)
  from dm_calculateMaxDrawdown_spec [OF this] show ?thesis
    by (simp only: tc_calculateMaxDrawdown_dm drawdown_example_closed drawdown_example_sorted
        drawdown_example_steps)
qed

lemma importedTrade_valid: "dm_validateTrade importedTrade = []"
  by (simp add: validate_defs importedTrade_def sampleTrade_def)

text \<open>
  C7, at an input where the code departs from it. A closed trade that
  \<^verbatim>\<open>importFromCSV\<close> saved has passed the validation and has no \<open>profitLoss\<close>. The loop
  adds the missing property to the running total, which makes it \<^verbatim>\<open>NaN\<close>, and the
  peak and the largest drawdown with it: on a collection that holds such a trade, alone
  or beside the stored sample trade, both \<^verbatim>\<open>calculateMaxDrawdown\<close> functions return
  \<^verbatim>\<open>NaN\<close>, which is not a number at or above 0.
\<close>

theorem calculateMaxDrawdown_missing_profitLoss:
  "dm_validateTrade importedTrade = []
   \<and> status importedTrade = ''closed''
   \<and> profitLoss importedTrade = None
   \<and> dm_calculateMaxDrawdown [importedTrade] = NaN
   \<and> tc_calculateMaxDrawdown [importedTrade] = NaN
   \<and> dm_calculateMaxDrawdown [storedSampleTrade, importedTrade] = NaN
   \<and> tc_calculateMaxDrawdown [importedTrade, storedSampleTrade] = NaN
   \<and> \<not> js_less (Fin 0) (dm_calculateMaxDrawdown [importedTrade])
   \<and> dm_calculateMaxDrawdown [importedTrade] \<noteq> Fin 0"
proof -
  have "dm_calculateMaxDrawdown [importedTrade] = NaN"
    "tc_calculateMaxDrawdown [importedTrade] = NaN"
    "dm_calculateMaxDrawdown [storedSampleTrade, importedTrade] = NaN"
    "tc_calculateMaxDrawdown [importedTrade, storedSampleTrade] = NaN"
    by (simp_all add: dm_calculateMaxDrawdown_def tc_calculateMaxDrawdown_def js_sort_def
        exit_ascending_def time_value_def drawdown_step_def js_sub_def Let_def
        importedTrade_def storedSampleTrade_def sampleTrade_def)
  moreover have "status importedTrade = ''closed''" "profitLoss importedTrade = None"
    by (simp_all add: importedTrade_def sampleTrade_def)
  ultimately show ?thesis using importedTrade_valid by simp
qed

subsection \<open>Win rate and profit factor\<close>

lemma foldl_profitLoss:
  "list_all has_profitLoss xs \<Longrightarrow>
   foldl (\<lambda>sum trade. js_add sum (to_number (profitLoss trade))) (Fin a) xs
     = Fin (a + sum_list (map profit_of xs))"
  by (induction xs arbitrary: a) (simp_all add: has_profitLoss_number)

lemma sum_list_neg:
  "xs \<noteq> [] \<Longrightarrow> \<forall>x\<in>set xs. f x < (0::rat) \<Longrightarrow> sum_list (map f xs) < 0"
proof (induction xs)
  case Nil
  then show ?case by simp
next
  case (Cons x xs)
  show ?case
  proof (cases "xs = []")
    case True
    with Cons.prems show ?thesis by simp
  next
    case False
    with Cons have "sum_list (map f xs) < 0" by simp
    moreover from Cons.prems have "f x < 0" by simp
    ultimately show ?thesis by simp
  qed
qed

text \<open>A winner and a loser have a profit, so the two sums never meet a missing one.\<close>

lemma winners_have_profit: "list_all has_profitLoss (winners ts)"
  by (auto simp add: winners_def list_all_iff has_profitLoss_def profit_of_def split: option.splits)

lemma losers_have_profit: "list_all has_profitLoss (losers ts)"
  by (auto simp add: losers_def list_all_iff has_profitLoss_def profit_of_def split: option.splits)

lemma winningTrades_eq:
  "filter (\<lambda>trade. js_less (Fin 0) (to_number (profitLoss trade)))
     (filter (\<lambda>trade. status trade = ''closed'') ts) = winners ts"
  by (simp add: winners_def profit_pos)

lemma losingTrades_eq:
  "filter (\<lambda>trade. js_less (to_number (profitLoss trade)) (Fin 0))
     (filter (\<lambda>trade. status trade = ''closed'') ts) = losers ts"
  by (simp add: losers_def profit_neg)

text \<open>With at least one loser the total loss is positive, so the guard lets the division through.\<close>

lemma losers_sum_neg: "losers ts \<noteq> [] \<Longrightarrow> sum_list (map profit_of (losers ts)) < 0"
  by (rule sum_list_neg) (auto simp add: losers_def)

lemma losers_closed: "closedTrades_of ts = [] \<Longrightarrow> losers ts = []"
  by (auto simp add: closedTrades_of_def losers_def filter_empty_conv)

lemma tc_calculateWinRate_spec: "tc_calculateWinRate ts = Fin (winRate_spec ts)"
  by (simp only: tc_calculateWinRate_def winningTrades_eq Let_def)
     (simp add: winRate_spec_def closedTrades_of_def js_div_def)

lemma tc_calculateProfitFactor_unfolded:
  "tc_calculateProfitFactor ts =
     (if closedTrades_of ts = [] then Fin 0
      else if 0 < \<bar>sum_list (map profit_of (losers ts))\<bar>
        then js_div (sum_list (map profit_of (winners ts))) \<bar>sum_list (map profit_of (losers ts))\<bar>
        else Fin 0)"
  by (simp only: tc_calculateProfitFactor_def winningTrades_eq losingTrades_eq Let_def
        foldl_profitLoss [OF winners_have_profit] foldl_profitLoss [OF losers_have_profit])
     (simp add: closedTrades_of_def)

lemma tc_calculateProfitFactor_spec: "tc_calculateProfitFactor ts = Fin (profitFactor_spec ts)"
proof (cases "losers ts = []")
  case True
  then show ?thesis
    by (simp add: tc_calculateProfitFactor_unfolded profitFactor_spec_def)
next
  case False
  then have neg: "sum_list (map profit_of (losers ts)) < 0" by (rule losers_sum_neg)
  from False have "closedTrades_of ts \<noteq> []" using losers_closed by blast
  with False neg show ?thesis
    by (simp add: tc_calculateProfitFactor_unfolded profitFactor_spec_def js_div_def)
qed

lemma breakeven_counts:
  assumes "status b = ''closed''" "profit_of b = 0"
  shows "length (closedTrades_of (xs @ b # ys)) = Suc (length (closedTrades_of (xs @ ys)))"
    and "winners (xs @ b # ys) = winners (xs @ ys)"
    and "losers (xs @ b # ys) = losers (xs @ ys)"
  using assms by (simp_all add: closedTrades_of_def winners_def losers_def)

text \<open>
  C6. \<^verbatim>\<open>calculateWinRate\<close> returns the number of closed trades with a profit strictly
  above 0, over the number of closed trades, times 100, and 0 when no trade is closed.
  \<^verbatim>\<open>calculateProfitFactor\<close> returns the winners' total profit over the absolute value
  of the losers' total, and 0 when there is no loser. A closed trade \<open>b\<close> with a profit
  of exactly 0, put anywhere into a collection, adds one to the denominator of the win
  rate, leaves its numerator as it is, and leaves the profit factor as it is. For three
  closed trades with the profits \<open>[+520, -47, +300]\<close> the win rate is 2/3 \<times> 100 and the
  profit factor 820/47.
\<close>

theorem winRate_profitFactor:
  "tc_calculateWinRate ts = Fin (winRate_spec ts)
   \<and> tc_calculateProfitFactor ts = Fin (profitFactor_spec ts)
   \<and> (status b = ''closed'' \<and> profit_of b = 0 \<longrightarrow>
        tc_calculateWinRate (xs @ b # ys)
          = Fin (of_nat (length (winners (xs @ ys)))
                   / of_nat (Suc (length (closedTrades_of (xs @ ys)))) * 100)
        \<and> tc_calculateProfitFactor (xs @ b # ys) = tc_calculateProfitFactor (xs @ ys))
   \<and> tc_calculateWinRate [closedTrade 1 520, closedTrade 2 (- 47), closedTrade 3 300]
        = Fin (2 / 3 * 100)
   \<and> tc_calculateProfitFactor [closedTrade 1 520, closedTrade 2 (- 47), closedTrade 3 300]
        = Fin (820 / 47)"
proof -
  have "tc_calculateWinRate (xs @ b # ys)
          = Fin (of_nat (length (winners (xs @ ys)))
                   / of_nat (Suc (length (closedTrades_of (xs @ ys)))) * 100)"
    and "tc_calculateProfitFactor (xs @ b # ys) = tc_calculateProfitFactor (xs @ ys)"
    if "status b = ''closed''" "profit_of b = 0"
  proof -
    from that have ne: "closedTrades_of (xs @ b # ys) \<noteq> []" by (simp add: closedTrades_of_def)
    show "tc_calculateWinRate (xs @ b # ys)
          = Fin (of_nat (length (winners (xs @ ys)))
                   / of_nat (Suc (length (closedTrades_of (xs @ ys)))) * 100)"
      using ne breakeven_counts [OF that, of xs ys]
      by (simp only: tc_calculateWinRate_spec winRate_spec_def if_False)
    show "tc_calculateProfitFactor (xs @ b # ys) = tc_calculateProfitFactor (xs @ ys)"
      using breakeven_counts [OF that, of xs ys]
      by (simp only: tc_calculateProfitFactor_spec profitFactor_spec_def)
  qed
  moreover have "tc_calculateWinRate [closedTrade 1 520, closedTrade 2 (- 47), closedTrade 3 300]
      = Fin (2 / 3 * 100)"
    by (simp add: tc_calculateWinRate_def closedTrade_def sampleTrade_def js_div_def)
  moreover have "tc_calculateProfitFactor [closedTrade 1 520, closedTrade 2 (- 47), closedTrade 3 300]
      = Fin (820 / 47)"
    by (simp add: tc_calculateProfitFactor_def closedTrade_def sampleTrade_def js_div_def)
  ultimately show ?thesis
    using tc_calculateWinRate_spec [of ts] tc_calculateProfitFactor_spec [of ts] by blast
qed

text \<open>
  A witness: a breakeven trade between a winner and a loser. One winner of three closed
  trades; the profit factor is that of the other two, 520/47.
\<close>

theorem winRate_profitFactor_witness:
  "tc_calculateWinRate [closedTrade 1 520, closedTrade 2 0, closedTrade 3 (- 47)] = Fin (1 / 3 * 100)
   \<and> tc_calculateProfitFactor [closedTrade 1 520, closedTrade 2 0, closedTrade 3 (- 47)]
       = tc_calculateProfitFactor [closedTrade 1 520, closedTrade 3 (- 47)]
   \<and> tc_calculateProfitFactor [closedTrade 1 520, closedTrade 3 (- 47)] = Fin (520 / 47)"
proof -
  have h: "status (closedTrade 2 0) = ''closed'' \<and> profit_of (closedTrade 2 0) = 0"
    by (simp add: closedTrade_def sampleTrade_def profit_of_def)
  have w: "length (winners ([closedTrade 1 520] @ [closedTrade 3 (- 47)])) = 1"
    by (simp add: winners_def profit_of_def closedTrade_def sampleTrade_def)
  have c: "length (closedTrades_of ([closedTrade 1 520] @ [closedTrade 3 (- 47)])) = 2"
    by (simp add: closedTrades_of_def closedTrade_def sampleTrade_def)
  have p: "profitFactor_spec [closedTrade 1 520, closedTrade 3 (- 47)] = 520 / 47"
    by (simp add: profitFactor_spec_def winners_def losers_def profit_of_def closedTrade_def
        sampleTrade_def)
  from winRate_profitFactor [of "[closedTrade 1 520, closedTrade 3 (- 47)]" "closedTrade 2 0"
      "[closedTrade 1 520]" "[closedTrade 3 (- 47)]"] h w c p
  show ?thesis by simp
qed

subsection \<open>Writes recompute the derived fields\<close>

text \<open>No calculator reads a derived field.\<close>

lemma calculators_ignore_derived:
  "dm_calculateProfitLossPercent (t\<lparr>profitLoss := p\<rparr>) = dm_calculateProfitLossPercent t"
  "dm_calculateRiskAmount (t\<lparr>profitLoss := p\<rparr>) = dm_calculateRiskAmount t"
  "dm_calculateRiskAmount (t\<lparr>profitLossPercent := b\<rparr>) = dm_calculateRiskAmount t"
  "dm_calculateRewardAmount (t\<lparr>profitLoss := p\<rparr>) = dm_calculateRewardAmount t"
  "dm_calculateRewardAmount (t\<lparr>profitLossPercent := b\<rparr>) = dm_calculateRewardAmount t"
  "dm_calculateRewardAmount (t\<lparr>riskAmount := a\<rparr>) = dm_calculateRewardAmount t"
  "dm_calculateRiskRewardRatio (t\<lparr>profitLoss := p\<rparr>) = dm_calculateRiskRewardRatio t"
  "dm_calculateRiskRewardRatio (t\<lparr>profitLossPercent := b\<rparr>) = dm_calculateRiskRewardRatio t"
  "dm_calculateRiskRewardRatio (t\<lparr>riskAmount := a\<rparr>) = dm_calculateRiskRewardRatio t"
  "dm_calculateRiskRewardRatio (t\<lparr>rewardAmount := a\<rparr>) = dm_calculateRiskRewardRatio t"
  "dm_calculateRiskPercent (t\<lparr>profitLoss := p\<rparr>) = dm_calculateRiskPercent t"
  "dm_calculateRiskPercent (t\<lparr>profitLossPercent := b\<rparr>) = dm_calculateRiskPercent t"
  "dm_calculateRiskPercent (t\<lparr>riskAmount := a\<rparr>) = dm_calculateRiskPercent t"
  "dm_calculateRiskPercent (t\<lparr>rewardAmount := a\<rparr>) = dm_calculateRiskPercent t"
  "dm_calculateRiskPercent (t\<lparr>riskRewardRatio := b\<rparr>) = dm_calculateRiskPercent t"
  by (simp_all add: dm_calc_defs Let_def cong: option.case_cong if_cong)

text \<open>So the six assignments amount to one simultaneous update from the trade as it was.\<close>

lemma derive_fields_eq:
  "derive_fields t = t\<lparr>
     profitLoss := Some (dm_calculateProfitLoss t),
     profitLossPercent := dm_calculateProfitLossPercent t,
     riskAmount := dm_calculateRiskAmount t,
     rewardAmount := dm_calculateRewardAmount t,
     riskRewardRatio := dm_calculateRiskRewardRatio t,
     riskPercent := dm_calculateRiskPercent t\<rparr>"
  by (simp add: derive_fields_def Let_def calculators_ignore_derived)

lemma derive_fields_current: "derived_fields_current (derive_fields t)"
  unfolding derive_fields_eq
  by (simp add: derived_fields_current_def dm_calc_defs Let_def cong: option.case_cong if_cong)

lemma findIndex_Some:
  "findIndex p xs = Some i \<Longrightarrow> i < length xs \<and> p (xs ! i) \<and> (\<forall>j<i. \<not> p (xs ! j))"
proof (induction xs arbitrary: i)
  case Nil
  then show ?case by simp
next
  case (Cons x xs)
  show ?case
  proof (cases "p x")
    case True
    with Cons.prems show ?thesis by simp
  next
    case False
    with Cons.prems obtain k where k: "findIndex p xs = Some k" "i = Suc k"
      by (auto split: option.splits)
    from Cons.IH [OF k(1)] False k(2) show ?thesis
      by (auto simp add: less_Suc_eq_0_disj)
  qed
qed

lemma findIndex_None: "findIndex p xs = None \<longleftrightarrow> (\<forall>x\<in>set xs. \<not> p x)"
  by (induction xs) (auto split: option.splits)

text \<open>
  The list is empty exactly when no rule is broken; an accepted trade has a positive
  position size and a positive entry price.
\<close>

lemma validateTrade_empty_iff:
  "dm_validateTrade t = [] \<longleftrightarrow>
     assetType t \<noteq> [] \<and> symbol t \<noteq> [] \<and> js_trim (symbol t) \<noteq> [] \<and> direction t \<noteq> []
     \<and> 0 < positionSize t \<and> 0 < entryPrice t \<and> entryDate t \<noteq> Absent
     \<and> \<not> (truthy (exitPrice t) \<and> or_default (exitPrice t) 0 \<le> 0)
     \<and> \<not> (truthy (stopLoss t) \<and> or_default (stopLoss t) 0 \<le> 0)
     \<and> \<not> (truthy (takeProfit t) \<and> or_default (takeProfit t) 0 \<le> 0)
     \<and> \<not> (exitDate t \<noteq> Absent \<and> entryDate t \<noteq> Absent \<and> date_less (exitDate t) (entryDate t))
     \<and> \<not> (truthy (accountSize t) \<and> riskAmount t \<noteq> 0 \<and> riskAmount t > or_default (accountSize t) 0)"
  by (auto simp add: dm_validateTrade_def)

lemma valid_positive: "dm_validateTrade t = [] \<Longrightarrow> 0 < positionSize t \<and> 0 < entryPrice t"
  by (simp add: validateTrade_empty_iff)

text \<open>The sample trade, step by step.\<close>

lemma sampleTrade_valid: "dm_validateTrade sampleTrade = []"
  by (simp add: validate_defs sampleTrade_def)

lemma sampleTrade_values:
  "dm_calculateProfitLoss (sampleTrade\<lparr>id_field := i, createdAt := c, updatedAt := u\<rparr>) = 520"
  "dm_calculateProfitLossPercent (sampleTrade\<lparr>id_field := i, createdAt := c, updatedAt := u\<rparr>)
     = Fin (2080 / 601)"
  "dm_calculateRiskAmount (sampleTrade\<lparr>id_field := i, createdAt := c, updatedAt := u\<rparr>) = 225"
  "dm_calculateRewardAmount (sampleTrade\<lparr>id_field := i, createdAt := c, updatedAt := u\<rparr>) = 475"
  "dm_calculateRiskRewardRatio (sampleTrade\<lparr>id_field := i, createdAt := c, updatedAt := u\<rparr>)
     = Fin (19 / 9)"
  "dm_calculateRiskPercent (sampleTrade\<lparr>id_field := i, createdAt := c, updatedAt := u\<rparr>)
     = Fin (9 / 4)"
  by (simp_all add: dm_calc_defs truthy_def or_default_def js_div_def sampleTrade_def)

lemma addTrade_sample:
  "dm_addTrade ''trade_1'' ''2024-01-17T08:00:00.000Z'' ''2024-01-17T08:00:00.001Z'' sampleTrade []
     = (Inr storedSampleTrade, [storedSampleTrade])"
proof -
  have "id_field sampleTrade = None" by (simp add: sampleTrade_def)
  then have "dm_addTrade ''trade_1'' ''2024-01-17T08:00:00.000Z'' ''2024-01-17T08:00:00.001Z''
        sampleTrade []
     = (let n = derive_fields (sampleTrade\<lparr>id_field := Some ''trade_1'',
            createdAt := ''2024-01-17T08:00:00.000Z'', updatedAt := ''2024-01-17T08:00:00.001Z''\<rparr>)
        in (Inr n, [n]))"
    by (simp add: dm_addTrade_def sampleTrade_valid Let_def)
  moreover have "derive_fields (sampleTrade\<lparr>id_field := Some ''trade_1'',
            createdAt := ''2024-01-17T08:00:00.000Z'', updatedAt := ''2024-01-17T08:00:00.001Z''\<rparr>)
      = storedSampleTrade"
    unfolding derive_fields_eq sampleTrade_values
    by (simp add: sampleTrade_def storedSampleTrade_def)
  ultimately show ?thesis by (simp add: Let_def)
qed

lemma spread_sample:
  "spread storedSampleTrade [SetExitPrice (Some 149), SetStopLoss None]
     = storedSampleTrade\<lparr>exitPrice := Some 149, stopLoss := None\<rparr>"
  by (simp add: spread_def)

lemma updated_valid:
  "dm_validateTrade (storedSampleTrade\<lparr>exitPrice := Some 149, stopLoss := None\<rparr>) = []"
  by (simp add: validate_defs storedSampleTrade_def)

lemma updated_values:
  "dm_calculateProfitLoss
     (storedSampleTrade\<lparr>exitPrice := Some 149, stopLoss := None, updatedAt := u\<rparr>) = - 130"
  "dm_calculateProfitLossPercent
     (storedSampleTrade\<lparr>exitPrice := Some 149, stopLoss := None, updatedAt := u\<rparr>)
     = Fin (- (520 / 601))"
  "dm_calculateRiskAmount
     (storedSampleTrade\<lparr>exitPrice := Some 149, stopLoss := None, updatedAt := u\<rparr>) = 0"
  "dm_calculateRewardAmount
     (storedSampleTrade\<lparr>exitPrice := Some 149, stopLoss := None, updatedAt := u\<rparr>) = 475"
  "dm_calculateRiskRewardRatio
     (storedSampleTrade\<lparr>exitPrice := Some 149, stopLoss := None, updatedAt := u\<rparr>) = Fin 0"
  "dm_calculateRiskPercent
     (storedSampleTrade\<lparr>exitPrice := Some 149, stopLoss := None, updatedAt := u\<rparr>) = Fin 0"
  by (simp_all add: dm_calc_defs truthy_def or_default_def js_div_def storedSampleTrade_def)

lemma updateTrade_sample:
  "dm_updateTrade ''2024-01-18T08:00:00.000Z'' ''trade_1''
        [SetExitPrice (Some 149), SetStopLoss None] [storedSampleTrade]
     = (Inr updatedSampleTrade, [updatedSampleTrade])"
proof -
  have "findIndex (\<lambda>trade. id_field trade = Some ''trade_1'') [storedSampleTrade] = Some 0"
    by (simp add: storedSampleTrade_def)
  then have "dm_updateTrade ''2024-01-18T08:00:00.000Z'' ''trade_1''
        [SetExitPrice (Some 149), SetStopLoss None] [storedSampleTrade]
     = (let n = derive_fields (storedSampleTrade\<lparr>exitPrice := Some 149, stopLoss := None,
                   updatedAt := ''2024-01-18T08:00:00.000Z''\<rparr>)
        in (Inr n, [n]))"
    by (simp add: dm_updateTrade_def spread_sample updated_valid Let_def)
  moreover have "derive_fields (storedSampleTrade\<lparr>exitPrice := Some 149, stopLoss := None,
                   updatedAt := ''2024-01-18T08:00:00.000Z''\<rparr>) = updatedSampleTrade"
    unfolding derive_fields_eq updated_values
    by (simp add: storedSampleTrade_def updatedSampleTrade_def)
  ultimately show ?thesis by (simp add: Let_def)
qed

text \<open>
  C5. When \<^verbatim>\<open>addTrade\<close> succeeds, the trade \<open>t\<close> it returns is the one appended to the
  collection that is handed to \<^verbatim>\<open>saveTrades\<close>, and each of its six derived fields
  equals the recomputation of that field from \<open>t\<close> itself. When \<^verbatim>\<open>updateTrade\<close>
  succeeds, the trade \<open>u\<close> it returns replaces the trade with the given id in that
  collection, and each of its six derived fields equals the recomputation from \<open>u\<close>.
\<close>

theorem derived_fields_recomputed_on_write:
  "(dm_addTrade newId now1 now2 tradeData trades = (Inr t, trades')
      \<longrightarrow> derived_fields_current t \<and> trades' = trades @ [t])
   \<and> (dm_updateTrade now tradeId updates store = (Inr u, store')
      \<longrightarrow> derived_fields_current u
          \<and> (\<exists>index. index < length store \<and> id_field (store ! index) = Some tradeId
                \<and> store' = store[index := u]))"
proof -
  have add: "derived_fields_current t \<and> trades' = trades @ [t]"
    if a: "dm_addTrade newId now1 now2 tradeData trades = (Inr t, trades')"
  proof -
    from a have "t = derive_fields (tradeData\<lparr>
        id_field := (case id_field tradeData of None \<Rightarrow> Some newId | Some i \<Rightarrow> Some i),
        createdAt := now1, updatedAt := now2\<rparr>)" and "trades' = trades @ [t]"
      by (auto simp add: dm_addTrade_def Let_def split: if_splits)
    then show ?thesis using derive_fields_current by simp
  qed
  have upd: "derived_fields_current u
          \<and> (\<exists>index. index < length store \<and> id_field (store ! index) = Some tradeId
                \<and> store' = store[index := u])"
    if a: "dm_updateTrade now tradeId updates store = (Inr u, store')"
  proof -
    from a obtain index
      where i: "findIndex (\<lambda>trade. id_field trade = Some tradeId) store = Some index"
      by (auto simp add: dm_updateTrade_def split: option.splits)
    with a have u: "u = derive_fields ((spread (store ! index) updates)\<lparr>updatedAt := now\<rparr>)"
      and s: "store' = store[index := u]"
      by (auto simp add: dm_updateTrade_def Let_def split: if_splits)
    from u have "derived_fields_current u" using derive_fields_current by simp
    with findIndex_Some [OF i] s show ?thesis by blast
  qed
  from add upd show ?thesis by blast
qed

text \<open>A witness: the sample trade is added to an empty collection, then updated.\<close>

theorem derived_fields_recomputed_on_write_witness:
  "dm_addTrade ''trade_1'' ''2024-01-17T08:00:00.000Z'' ''2024-01-17T08:00:00.001Z'' sampleTrade []
     = (Inr storedSampleTrade, [storedSampleTrade])
   \<and> derived_fields_current storedSampleTrade
   \<and> dm_updateTrade ''2024-01-18T08:00:00.000Z'' ''trade_1''
        [SetExitPrice (Some 149), SetStopLoss None] [storedSampleTrade]
     = (Inr updatedSampleTrade, [updatedSampleTrade])
   \<and> derived_fields_current updatedSampleTrade"
proof -
  from derived_fields_recomputed_on_write [of "''trade_1''" "''2024-01-17T08:00:00.000Z''"
      "''2024-01-17T08:00:00.001Z''" sampleTrade "[]" storedSampleTrade "[storedSampleTrade]"
      "''2024-01-18T08:00:00.000Z''" "''trade_1''" "[SetExitPrice (Some 149), SetStopLoss None]"
      "[storedSampleTrade]" updatedSampleTrade "[updatedSampleTrade]"]
  have "derived_fields_current storedSampleTrade" and "derived_fields_current updatedSampleTrade"
    using addTrade_sample updateTrade_sample by blast+
  with addTrade_sample updateTrade_sample show ?thesis by blast
qed

subsection \<open>Errors leave the collection as it was\<close>

lemma absent_no_match:
  "Some tradeId \<notin> id_field ` set trades \<Longrightarrow> \<forall>x\<in>set trades. id_field x \<noteq> Some tradeId"
  by (metis imageI)

lemma absent_findIndex:
  "Some tradeId \<notin> id_field ` set trades
     \<Longrightarrow> findIndex (\<lambda>trade. id_field trade = Some tradeId) trades = None"
  using absent_no_match [of tradeId trades] by (simp add: findIndex_None)

lemma absent_filter:
  "Some tradeId \<notin> id_field ` set trades
     \<Longrightarrow> filter (\<lambda>trade. id_field trade \<noteq> Some tradeId) trades = trades"
  by (induction trades) auto

lemma absent_find:
  "Some tradeId \<notin> id_field ` set trades
     \<Longrightarrow> find (\<lambda>trade. id_field trade = Some tradeId) trades = None"
  using absent_no_match [of tradeId trades] by (simp add: find_None_iff)

lemma addTrade_error_unchanged:
  "fst (dm_addTrade newId now1 now2 tradeData trades) = Inl e
     \<Longrightarrow> snd (dm_addTrade newId now1 now2 tradeData trades) = trades"
  by (auto simp add: dm_addTrade_def Let_def split: if_splits)

lemma updateTrade_error_unchanged:
  "fst (dm_updateTrade now tradeId updates trades) = Inl e
     \<Longrightarrow> snd (dm_updateTrade now tradeId updates trades) = trades"
  by (auto simp add: dm_updateTrade_def Let_def split: if_splits option.splits)

lemma deleteTrade_error_unchanged:
  "fst (dm_deleteTrade tradeId trades) = Inl e \<Longrightarrow> snd (dm_deleteTrade tradeId trades) = trades"
  by (auto simp add: dm_deleteTrade_def Let_def split: if_splits)

lemma getTrade_unchanged: "snd (dm_getTrade tradeId trades) = trades"
  by (auto simp add: dm_getTrade_def split: option.splits)

text \<open>Two rules broken at once give two messages: no rule hides another.\<close>

lemma two_violations_on_add:
  "dm_validateTrade (sampleTrade\<lparr>symbol := '' '', positionSize := 0\<rparr>)
     = [''Symbol is required'', ''Position size must be greater than 0'']"
  by (simp add: validate_defs sampleTrade_def)

lemma two_violations_on_update:
  "dm_validateTrade (spread storedSampleTrade [SetEntryPrice (- 1), SetExitDate (At 0)])
     = [''Entry price must be greater than 0'', ''Exit date cannot be before entry date'']"
  by (simp add: spread_def validate_defs storedSampleTrade_def)

text \<open>
  C9. When the validation of \<open>tradeData\<close> returns a violation, \<^verbatim>\<open>addTrade\<close> throws with
  the messages joined and the collection is as before. When the trade with the id
  \<open>presentId\<close> is found and the validation of the merged trade returns a violation,
  \<^verbatim>\<open>updateTrade\<close> throws likewise. When no trade of the collection has the id
  \<open>absentId\<close>, \<^verbatim>\<open>updateTrade\<close>, \<^verbatim>\<open>deleteTrade\<close> and \<^verbatim>\<open>getTrade\<close> throw
  \<^verbatim>\<open>Trade not found\<close> and the collection is as before. And whenever one of the four
  operations throws, for whatever reason, the collection is as before.
\<close>

theorem errors_leave_collection_unchanged:
  "(dm_validateTrade tradeData \<noteq> [] \<longrightarrow>
      dm_addTrade newId now1 now2 tradeData trades
        = (Inl (Error (join_comma (dm_validateTrade tradeData))), trades))
   \<and> (findIndex (\<lambda>trade. id_field trade = Some presentId) store = Some index
        \<and> dm_validateTrade (spread (store ! index) updates) \<noteq> [] \<longrightarrow>
      dm_updateTrade now presentId updates store
        = (Inl (Error (join_comma (dm_validateTrade (spread (store ! index) updates)))), store))
   \<and> (Some absentId \<notin> id_field ` set store \<longrightarrow>
      dm_updateTrade now absentId updates store = (Inl (Error ''Trade not found''), store)
      \<and> dm_deleteTrade absentId store = (Inl (Error ''Trade not found''), store)
      \<and> dm_getTrade absentId store = (Inl (Error ''Trade not found''), store))
   \<and> (isl (fst (dm_addTrade newId now1 now2 tradeData trades)) \<longrightarrow>
        snd (dm_addTrade newId now1 now2 tradeData trades) = trades)
   \<and> (isl (fst (dm_updateTrade now tradeId updates trades)) \<longrightarrow>
        snd (dm_updateTrade now tradeId updates trades) = trades)
   \<and> (isl (fst (dm_deleteTrade tradeId trades)) \<longrightarrow>
        snd (dm_deleteTrade tradeId trades) = trades)
   \<and> snd (dm_getTrade tradeId trades) = trades"
proof -
  have "dm_addTrade newId now1 now2 tradeData trades
        = (Inl (Error (join_comma (dm_validateTrade tradeData))), trades)"
    if "dm_validateTrade tradeData \<noteq> []"
    using that by (simp add: dm_addTrade_def)
  moreover have "dm_updateTrade now presentId updates store
        = (Inl (Error (join_comma (dm_validateTrade (spread (store ! index) updates)))), store)"
    if "findIndex (\<lambda>trade. id_field trade = Some presentId) store = Some index"
      and "dm_validateTrade (spread (store ! index) updates) \<noteq> []"
    using that by (simp add: dm_updateTrade_def)
  moreover have "dm_updateTrade now absentId updates store = (Inl (Error ''Trade not found''), store)
      \<and> dm_deleteTrade absentId store = (Inl (Error ''Trade not found''), store)
      \<and> dm_getTrade absentId store = (Inl (Error ''Trade not found''), store)"
    if "Some absentId \<notin> id_field ` set store"
    using absent_findIndex [OF that] absent_filter [OF that] absent_find [OF that]
    by (simp add: dm_updateTrade_def dm_deleteTrade_def dm_getTrade_def)
  moreover have "snd (dm_addTrade newId now1 now2 tradeData trades) = trades"
    if "isl (fst (dm_addTrade newId now1 now2 tradeData trades))"
    using that addTrade_error_unchanged by (auto simp add: isl_def)
  moreover have "snd (dm_updateTrade now tradeId updates trades) = trades"
    if "isl (fst (dm_updateTrade now tradeId updates trades))"
    using that updateTrade_error_unchanged by (auto simp add: isl_def)
  moreover have "snd (dm_deleteTrade tradeId trades) = trades"
    if "isl (fst (dm_deleteTrade tradeId trades))"
    using that deleteTrade_error_unchanged by (auto simp add: isl_def)
  ultimately show ?thesis using getTrade_unchanged by blast
qed

text \<open>
  A witness, on the collection that holds the stored sample trade: a create with a
  blank symbol and a position size of 0, an update that sets a negative entry price
  and an exit date before the entry, and an update, a delete and a get of an id that
  the collection does not hold.
\<close>

theorem errors_leave_collection_unchanged_witness:
  "dm_addTrade ''trade_2'' ''2024-01-19T08:00:00.000Z'' ''2024-01-19T08:00:00.000Z''
       (sampleTrade\<lparr>symbol := '' '', positionSize := 0\<rparr>) [storedSampleTrade]
     = (Inl (Error ''Symbol is required, Position size must be greater than 0''), [storedSampleTrade])
   \<and> dm_updateTrade ''2024-01-19T08:00:00.000Z'' ''trade_1''
       [SetEntryPrice (- 1), SetExitDate (At 0)] [storedSampleTrade]
     = (Inl (Error ''Entry price must be greater than 0, Exit date cannot be before entry date''),
        [storedSampleTrade])
   \<and> dm_updateTrade ''2024-01-19T08:00:00.000Z'' ''trade_9''
       [SetEntryPrice (- 1), SetExitDate (At 0)] [storedSampleTrade]
     = (Inl (Error ''Trade not found''), [storedSampleTrade])
   \<and> dm_deleteTrade ''trade_9'' [storedSampleTrade]
     = (Inl (Error ''Trade not found''), [storedSampleTrade])
   \<and> dm_getTrade ''trade_9'' [storedSampleTrade]
     = (Inl (Error ''Trade not found''), [storedSampleTrade])"
proof -
  have h1: "dm_validateTrade (sampleTrade\<lparr>symbol := '' '', positionSize := 0\<rparr>) \<noteq> []"
    by (simp add: two_violations_on_add)
  have h2: "findIndex (\<lambda>trade. id_field trade = Some ''trade_1'') [storedSampleTrade] = Some 0"
    by (simp add: storedSampleTrade_def)
  have h3: "dm_validateTrade (spread ([storedSampleTrade] ! 0)
      [SetEntryPrice (- 1), SetExitDate (At 0)]) \<noteq> []"
    by (simp add: two_violations_on_update)
  have h4: "Some ''trade_9'' \<notin> id_field ` set [storedSampleTrade]"
    by (simp add: storedSampleTrade_def)
  from errors_leave_collection_unchanged [of "sampleTrade\<lparr>symbol := '' '', positionSize := 0\<rparr>"
      "''trade_2''" "''2024-01-19T08:00:00.000Z''" "''2024-01-19T08:00:00.000Z''" "[storedSampleTrade]"
      "''trade_1''" "[storedSampleTrade]" 0 "[SetEntryPrice (- 1), SetExitDate (At 0)]"
      "''2024-01-19T08:00:00.000Z''" "''trade_9''"]
    h1 h2 h3 h4
  show ?thesis by (simp add: two_violations_on_add two_violations_on_update)
qed

end
